theory Spec2Isabelle
  imports Complex_Main "HOL-Library.Sublist"
begin

section \<open>Values of the Python program\<close>

text \<open>
  A Python \<open>str\<close> is a \<open>string\<close>, a list of 8-bit characters: the UTF-8 encoding
  of the text. Equality, concatenation and \<open>join\<close> of texts are those of their
  encodings; \<open>len\<close> counts code points (\<open>py_len\<close> below); \<open>str.upper\<close>,
  \<open>str.lower\<close> and \<open>str.strip\<close>, which follow the Unicode tables, are fields of
  the record \<open>pylib\<close> below.

  A \<open>decimal.Decimal\<close> is denoted by the number it stands for: a rational, one of
  the two infinities, or NaN.

  A Python \<open>float\<close> is a value of a type \<open>'f\<close> that the model leaves open: binary
  floating-point arithmetic is not modelled, and every operation on floats that the
  program uses is a field of the record \<open>pylib\<close> below.
\<close>

datatype decimal = Num rat | PosInf | NegInf | NaN

text \<open>
  \<open>d <= 0\<close> on a \<open>Decimal\<close>: an ordering comparison with NaN raises
  \<open>InvalidOperation\<close>, which is \<open>None\<close> here.
\<close>

fun decimal_le_zero :: "decimal \<Rightarrow> bool option" where
  "decimal_le_zero (Num r) = Some (r \<le> 0)"
| "decimal_le_zero NegInf = Some True"
| "decimal_le_zero PosInf = Some False"
| "decimal_le_zero NaN = None"

text \<open>The truth value of a \<open>Decimal\<close>: false for zero only.\<close>

fun decimal_bool :: "decimal \<Rightarrow> bool" where
  "decimal_bool (Num r) = (r \<noteq> 0)"
| "decimal_bool PosInf = True"
| "decimal_bool NegInf = True"
| "decimal_bool NaN = True"

text \<open>
  \<open>len(s)\<close>: the number of code points of the text, which is the number of bytes
  of its UTF-8 encoding that are not continuation bytes (\<open>0x80\<close> to \<open>0xBF\<close>).
\<close>

definition is_continuation :: "char \<Rightarrow> bool" where
  "is_continuation c \<longleftrightarrow> 128 \<le> (of_char c :: nat) \<and> (of_char c :: nat) < 192"

definition py_len :: "string \<Rightarrow> nat" where
  "py_len s = length (filter (\<lambda>c. \<not> is_continuation c) s)"

text \<open>\<open>str(n)\<close> for an integer: its decimal digits, with a minus sign when negative.\<close>

definition digit_char :: "nat \<Rightarrow> char" where
  "digit_char d = ''0123456789'' ! (d mod 10)"

fun str_nat :: "nat \<Rightarrow> string" where
  "str_nat n = (if n < 10 then [digit_char n] else str_nat (n div 10) @ [digit_char n])"

declare str_nat.simps [simp del]

definition str_int :: "int \<Rightarrow> string" where
  "str_int i = (if i < 0 then CHR ''-'' # str_nat (nat (- i)) else str_nat (nat i))"

text \<open>\<open>sep.join(xs)\<close>.\<close>

fun join :: "string \<Rightarrow> string list \<Rightarrow> string" where
  "join sep [] = []"
| "join sep [x] = x"
| "join sep (x # y # ys) = x @ sep @ join sep (y # ys)"

text \<open>
  The exceptions the program raises and catches, each with its \<open>str(e)\<close>.
  \<open>Exception m\<close> is an instance of the base class itself, as in
  \<open>raise Exception(m)\<close>. \<open>RequestException\<close> stands for
  \<open>requests.exceptions.RequestException\<close> and its subclasses (an exception that is
  also a \<open>ValueError\<close> is caught by the handler of \<open>RequestException\<close>, which
  comes first).
\<close>

datatype exn =
    ValueError string
  | TypeError string
  | EOFError string
  | RequestException string
  | Exception string

text \<open>The values a request parameter takes: \<open>str\<close>, \<open>int\<close> and \<open>float\<close>.\<close>

datatype 'f pval = PStr string | PInt int | PFloat 'f

text \<open>Decoded JSON.\<close>

datatype 'f jvalue =
    JNull
  | JBool bool
  | JInt int
  | JFloat 'f
  | JStr string
  | JList "'f jvalue list"
  | JDict "(string \<times> 'f jvalue) list"

text \<open>
  The functions of the Python library that the program calls and that are not
  modelled further; every definition that needs one takes this record.
  \<^item> \<open>str_upper s\<close>, \<open>str_lower s\<close>, \<open>str_strip s\<close>: \<open>s.upper()\<close>,
    \<open>s.lower()\<close> and \<open>s.strip()\<close>;
  \<^item> \<open>hmac_sha256_hex key msg\<close>: \<open>hmac.new(key, msg, hashlib.sha256).hexdigest()\<close>;
  \<^item> \<open>float_le_zero x\<close>, \<open>float_gt_zero x\<close>, \<open>float_eq_int x i\<close>, \<open>float_bool x\<close>:
    \<open>x <= 0\<close>, \<open>x > 0\<close>, \<open>x == i\<close> and the truth value of a float \<open>x\<close>;
  \<^item> \<open>float_round x n\<close>: \<open>round(x, n)\<close>;
  \<^item> \<open>float_str x\<close>: \<open>str(x)\<close>;
  \<^item> \<open>float_of_Decimal d\<close>: \<open>float(d)\<close> of a \<open>Decimal\<close>;
  \<^item> \<open>float_of_json v\<close>: \<open>float(v)\<close> of a decoded JSON value, or the exception it
    raises;
  \<^item> \<open>Decimal_of_str s\<close>: \<open>Decimal(s)\<close> of a string, \<open>None\<close> where it raises
    \<open>InvalidOperation\<close>;
  \<^item> \<open>Decimal_of_float x\<close>: \<open>Decimal(x)\<close> of a float;
  \<^item> \<open>repr_json v\<close>: \<open>str(v)\<close> of a decoded JSON list or dict.
\<close>

record 'f pylib =
  str_upper :: "string \<Rightarrow> string"
  str_lower :: "string \<Rightarrow> string"
  str_strip :: "string \<Rightarrow> string"
  hmac_sha256_hex :: "string \<Rightarrow> string \<Rightarrow> string"
  float_le_zero :: "'f \<Rightarrow> bool"
  float_gt_zero :: "'f \<Rightarrow> bool"
  float_eq_int :: "'f \<Rightarrow> int \<Rightarrow> bool"
  float_bool :: "'f \<Rightarrow> bool"
  float_round :: "'f \<Rightarrow> nat \<Rightarrow> 'f"
  float_str :: "'f \<Rightarrow> string"
  float_of_Decimal :: "decimal \<Rightarrow> 'f"
  float_of_json :: "'f jvalue \<Rightarrow> exn + 'f"
  Decimal_of_str :: "string \<Rightarrow> decimal option"
  Decimal_of_float :: "'f \<Rightarrow> decimal"
  repr_json :: "'f jvalue \<Rightarrow> string"

text \<open>
  A parameter dictionary keeps insertion order, which \<open>urlencode\<close> follows:
  \<open>d[k] = v\<close> replaces the value of a key already there, in its place, and
  appends a new key at the end.
\<close>

type_synonym 'f params = "(string \<times> 'f pval) list"

fun assign :: "'f params \<Rightarrow> string \<Rightarrow> 'f pval \<Rightarrow> 'f params" where
  "assign [] k v = [(k, v)]"
| "assign ((k', v') # d) k v = (if k' = k then (k, v) # d else (k', v') # assign d k v)"

definition keys :: "'f params \<Rightarrow> string list" where
  "keys d = map fst d"

section \<open>config.py\<close>

definition BASE_URL :: string where
  "BASE_URL = ''https://testnet.binance.vision''"

text \<open>
  \<open>os.getenv(name, default)\<close> on the environment as it is after \<open>load_dotenv()\<close>.
\<close>

type_synonym environ = "string \<rightharpoonup> string"

definition getenv :: "environ \<Rightarrow> string \<Rightarrow> string \<Rightarrow> string" where
  "getenv env name dflt = (case env name of None \<Rightarrow> dflt | Some v \<Rightarrow> v)"

record Config =
  API_KEY :: string
  SECRET_KEY :: string

definition load_Config :: "environ \<Rightarrow> Config" where
  "load_Config env =
     \<lparr>API_KEY = getenv env ''BINANCE_API_KEY'' ''your_testnet_api_key'',
      SECRET_KEY = getenv env ''BINANCE_SECRET_KEY'' ''your_testnet_secret_key''\<rparr>"

definition validate_config :: "Config \<Rightarrow> exn + unit" where
  "validate_config c =
     (if API_KEY c = ''your_testnet_api_key'' \<or> SECRET_KEY c = ''your_testnet_secret_key''
      then Inl (ValueError ''Please set your API credentials in .env file or config.py'')
      else Inr ())"

section \<open>binance_client.py\<close>

subsection \<open>The world outside the program\<close>

text \<open>
  An HTTP call of the session: the method, the URL, the session's headers and the
  form data. What comes back is either an exception raised by the call (DNS, timeout,
  connection reset: a \<open>RequestException\<close>) or a response. Of a response the program
  reads the status code, the reason phrase, the final URL, the redirect history (here
  the URLs of the intermediate responses) and the result of \<open>response.json()\<close>, which
  is the decoded body or the exception raised on a malformed one.
\<close>

record 'f request =
  req_method :: string
  req_url :: string
  req_headers :: "(string \<times> string) list"
  req_data :: "'f params"

record 'f response =
  status_code :: nat
  reason :: string
  url :: string
  history :: "string list"
  json :: "exn + 'f jvalue"

text \<open>
  The server answers a request, given the requests it has received before. The world
  holds what the program reads and writes outside itself: the clock
  (\<open>int(time.time() * 1000)\<close>), the lines waiting on standard input, and the log of
  the HTTP calls made so far. The clock is read at most once in a run of the program
  and does not advance in the model. Logging and printing are not modelled.
\<close>

type_synonym 'f server = "'f request list \<Rightarrow> 'f request \<Rightarrow> exn + 'f response"

record 'f world =
  now_ms :: int
  stdin :: "string list"
  sent :: "'f request list"

definition http_call :: "'f server \<Rightarrow> 'f request \<Rightarrow> 'f world \<Rightarrow> (exn + 'f response) \<times> 'f world" where
  "http_call srv rq w = (srv (sent w) rq, w\<lparr>sent := sent w @ [rq]\<rparr>)"

subsection \<open>\<open>urllib.parse.urlencode\<close>\<close>

text \<open>
  \<open>urlencode\<close> writes each pair as \<open>quote_plus(str(k)) + '=' + quote_plus(str(v))\<close>
  and joins the pairs with \<open>&\<close>. \<open>quote_plus\<close> keeps letters, digits and
  \<open>_.-~\<close>, turns a space into \<open>+\<close> and writes any other byte as \<open>%XX\<close>.
\<close>

definition hex_digit :: "nat \<Rightarrow> char" where
  "hex_digit d = ''0123456789ABCDEF'' ! (d mod 16)"

definition unreserved :: "char \<Rightarrow> bool" where
  "unreserved c \<longleftrightarrow>
     c \<in> set ''ABCDEFGHIJKLMNOPQRSTUVWXYZabcdefghijklmnopqrstuvwxyz0123456789_.-~''"

definition quote_plus_char :: "char \<Rightarrow> string" where
  "quote_plus_char c =
     (if unreserved c then [c]
      else if c = CHR '' '' then ''+''
      else [CHR ''%'', hex_digit (of_char c div 16), hex_digit (of_char c)])"

definition quote_plus :: "string \<Rightarrow> string" where
  "quote_plus s = concat (map quote_plus_char s)"

definition str_pval :: "'f pylib \<Rightarrow> 'f pval \<Rightarrow> string" where
  "str_pval lib v = (case v of PStr s \<Rightarrow> s | PInt i \<Rightarrow> str_int i | PFloat x \<Rightarrow> float_str lib x)"

definition urlencode :: "'f pylib \<Rightarrow> 'f params \<Rightarrow> string" where
  "urlencode lib d =
     join ''&'' (map (\<lambda>(k, v). quote_plus k @ ''='' @ quote_plus (str_pval lib v)) d)"

subsection \<open>\<open>BinanceFuturesClient\<close>\<close>

record client =
  api_key :: string
  secret_key :: string
  base_url :: string
  session_headers :: "(string \<times> string) list"

definition BinanceFuturesClient :: "string \<Rightarrow> string \<Rightarrow> client" where
  "BinanceFuturesClient ak sk =
     \<lparr>api_key = ak, secret_key = sk, base_url = BASE_URL,
      session_headers = [(''X-MBX-APIKEY'', ak), (''Content-Type'', ''application/json'')]\<rparr>"

text \<open>\<open>_generate_signature\<close> (an Isabelle name cannot start with an underscore).\<close>

definition generate_signature :: "'f pylib \<Rightarrow> client \<Rightarrow> 'f params \<Rightarrow> string" where
  "generate_signature lib cl ps = hmac_sha256_hex lib (secret_key cl) (urlencode lib ps)"

text \<open>
  \<open>response.raise_for_status()\<close> of \<open>requests\<close>: an \<open>HTTPError\<close>, which is a
  \<open>RequestException\<close>, for a status from 400 to 599, and nothing otherwise.
\<close>

definition raise_for_status :: "'f response \<Rightarrow> exn + unit" where
  "raise_for_status r =
     (if 400 \<le> status_code r \<and> status_code r < 500
      then Inl (RequestException
             (str_nat (status_code r) @ '' Client Error: '' @ reason r @ '' for url: '' @ url r))
      else if 500 \<le> status_code r \<and> status_code r < 600
      then Inl (RequestException
             (str_nat (status_code r) @ '' Server Error: '' @ reason r @ '' for url: '' @ url r))
      else Inr ())"

text \<open>
  \<open>_send_request\<close>. \<open>signed_params\<close> is the part under \<open>if signed\<close>;
  \<open>send_body\<close> is the body of the \<open>try\<close>, \<open>send_handlers\<close> its two
  \<open>except\<close> clauses, which leave every other exception as it is.
\<close>

definition signed_params :: "'f pylib \<Rightarrow> client \<Rightarrow> int \<Rightarrow> 'f params \<Rightarrow> 'f params" where
  "signed_params lib cl now ps =
     (let ps1 = assign ps ''timestamp'' (PInt now)
      in assign ps1 ''signature'' (PStr (generate_signature lib cl ps1)))"

definition after_response :: "'f response \<Rightarrow> exn + 'f jvalue" where
  "after_response r = (case raise_for_status r of Inl e \<Rightarrow> Inl e | Inr _ \<Rightarrow> json r)"

definition send_body ::
  "'f server \<Rightarrow> client \<Rightarrow> string \<Rightarrow> string \<Rightarrow> 'f params \<Rightarrow> 'f world \<Rightarrow> (exn + 'f jvalue) \<times> 'f world" where
  "send_body srv cl method u ps w =
     (if method = ''GET'' then
        (case http_call srv
                \<lparr>req_method = ''GET'', req_url = u, req_headers = session_headers cl, req_data = ps\<rparr> w of
           (Inl e, w') \<Rightarrow> (Inl e, w')
         | (Inr r, w') \<Rightarrow> (after_response r, w'))
      else if method = ''POST'' then
        (case http_call srv
                \<lparr>req_method = ''POST'', req_url = u, req_headers = session_headers cl, req_data = ps\<rparr> w of
           (Inl e, w') \<Rightarrow> (Inl e, w')
         | (Inr r, w') \<Rightarrow>
             (if history r \<noteq> []
              then (Inl (Exception
                      (''Request redirected! Wrong URL or endpoint. Final URL: '' @ url r)), w')
              else (after_response r, w')))
      else (Inl (ValueError (''Unsupported HTTP method: '' @ method)), w))"

fun send_handlers :: "exn + 'a \<Rightarrow> exn + 'a" where
  "send_handlers (Inl (RequestException m)) = Inl (Exception (''Network error: '' @ m))"
| "send_handlers (Inl (ValueError m)) = Inl (Exception (''Invalid response from server: '' @ m))"
| "send_handlers r = r"

definition send_request ::
  "'f pylib \<Rightarrow> 'f server \<Rightarrow> client \<Rightarrow> string \<Rightarrow> string \<Rightarrow> 'f params option \<Rightarrow> bool \<Rightarrow> 'f world
     \<Rightarrow> (exn + 'f jvalue) \<times> 'f world" where
  "send_request lib srv cl method endpoint params signed w =
     (let u = base_url cl @ endpoint;
          ps = (case params of None \<Rightarrow> [] | Some d \<Rightarrow> d);
          ps = (if signed then signed_params lib cl (now_ms w) ps else ps)
      in case send_body srv cl method u ps w of (r, w') \<Rightarrow> (send_handlers r, w'))"

text \<open>
  The request that \<open>_send_request\<close> hands to the session when the method is GET
  or POST (\<open>sent_send_request\<close> below).
\<close>

definition request_sent ::
  "'f pylib \<Rightarrow> client \<Rightarrow> string \<Rightarrow> string \<Rightarrow> 'f params option \<Rightarrow> bool \<Rightarrow> 'f world \<Rightarrow> 'f request" where
  "request_sent lib cl method endpoint params signed w =
     \<lparr>req_method = method, req_url = base_url cl @ endpoint,
      req_headers = session_headers cl,
      req_data = (let ps = (case params of None \<Rightarrow> [] | Some d \<Rightarrow> d)
                  in if signed then signed_params lib cl (now_ms w) ps else ps)\<rparr>"

text \<open>
  \<open>place_order\<close>. The four checks raise in the order of the source; the
  \<open>try\<close> around the call re-raises what it catches. After the checks a LIMIT
  order has a price, so the branch for \<open>round(None, 2)\<close> is never taken.
\<close>

definition order_params :: "'f pylib \<Rightarrow> string \<Rightarrow> string \<Rightarrow> string \<Rightarrow> 'f \<Rightarrow> 'f params" where
  "order_params lib symbol side order_type quantity =
     [(''symbol'', PStr (str_upper lib symbol)),
      (''side'', PStr side),
      (''type'', PStr order_type),
      (''quantity'', PFloat (float_round lib quantity 8)),
      (''newOrderRespType'', PStr ''ACK'')]"

definition place_order ::
  "'f pylib \<Rightarrow> 'f server \<Rightarrow> client \<Rightarrow> string \<Rightarrow> string \<Rightarrow> string \<Rightarrow> 'f \<Rightarrow> 'f option \<Rightarrow> 'f world
     \<Rightarrow> (exn + 'f jvalue) \<times> 'f world" where
  "place_order lib srv cl symbol side order_type quantity price w =
     (if side \<notin> set [''BUY'', ''SELL'']
      then (Inl (ValueError (''Side must be either 'BUY' or 'SELL'' @ [CHR 0x27])), w)
      else if order_type \<notin> set [''MARKET'', ''LIMIT'']
      then (Inl (ValueError (''Order type must be either 'MARKET' or 'LIMIT'' @ [CHR 0x27])), w)
      else if order_type = ''LIMIT'' \<and> price = None
      then (Inl (ValueError ''Price is required for LIMIT orders''), w)
      else if float_le_zero lib quantity
      then (Inl (ValueError ''Quantity must be greater than 0''), w)
      else
        (let ps = order_params lib symbol side order_type quantity
         in if order_type = ''LIMIT'' then
              (case price of
                 None \<Rightarrow> (Inl (TypeError ''round(None, 2)''), w)
               | Some p \<Rightarrow>
                   send_request lib srv cl ''POST'' ''/api/v3/order''
                     (Some (assign (assign ps ''timeInForce'' (PStr ''GTC''))
                              ''price'' (PFloat (float_round lib p 2))))
                     True w)
            else send_request lib srv cl ''POST'' ''/api/v3/order'' (Some ps) True w))"

definition get_account_info ::
  "'f pylib \<Rightarrow> 'f server \<Rightarrow> client \<Rightarrow> 'f world \<Rightarrow> (exn + 'f jvalue) \<times> 'f world" where
  "get_account_info lib srv cl w = send_request lib srv cl ''GET'' ''/api/v3/account'' None True w"

definition test_connection :: "'f pylib \<Rightarrow> 'f server \<Rightarrow> client \<Rightarrow> 'f world \<Rightarrow> bool \<times> 'f world" where
  "test_connection lib srv cl w =
     (case send_request lib srv cl ''GET'' ''/api/v3/ping'' None False w of
        (Inl e, w') \<Rightarrow> (False, w')
      | (Inr d, w') \<Rightarrow> (True, w'))"

section \<open>cli_handler.py\<close>

text \<open>
  What the caller passes as quantity and price: the text typed at the prompt in
  interactive mode, the float parsed by \<open>argparse\<close> in argument mode.
\<close>

datatype 'f cli_value = Text string | Flt 'f

definition to_Decimal :: "'f pylib \<Rightarrow> 'f cli_value \<Rightarrow> decimal option" where
  "to_Decimal lib v =
     (case v of Text s \<Rightarrow> Decimal_of_str lib s | Flt x \<Rightarrow> Some (Decimal_of_float lib x))"

definition cli_value_bool :: "'f pylib \<Rightarrow> 'f cli_value \<Rightarrow> bool" where
  "cli_value_bool lib v = (case v of Text s \<Rightarrow> s \<noteq> [] | Flt x \<Rightarrow> float_bool lib x)"

text \<open>
  \<open>validate_inputs\<close>: the list \<open>errors\<close> grows check by check, in the order of the
  source. A \<open>Decimal\<close> that cannot be built, or that cannot be compared with 0, is
  the \<open>except\<close> branch of its check. When \<open>Decimal(quantity)\<close> raises, the
  variable \<open>qty\<close> stays unbound and \<open>errors\<close> is not empty, so the branch
  that would read the unbound \<open>qty\<close> is never taken.
\<close>

definition validate_inputs ::
  "'f pylib \<Rightarrow> string \<Rightarrow> string \<Rightarrow> string \<Rightarrow> 'f cli_value \<Rightarrow> 'f cli_value option
     \<Rightarrow> exn + (string \<times> string \<times> string \<times> 'f \<times> 'f option)" where
  "validate_inputs lib symbol side order_type quantity price =
     (let errors = [];
          errors = (if symbol = [] \<or> py_len symbol < 6
                    then errors @ [''Symbol must be at least 6 characters (e.g., BTCUSDT)'']
                    else errors);
          errors = (if str_upper lib side \<notin> set [''BUY'', ''SELL'']
                    then errors @ [''Side must be either 'BUY' or 'SELL'' @ [CHR 0x27]]
                    else errors);
          errors = (if str_upper lib order_type \<notin> set [''MARKET'', ''LIMIT'']
                    then errors @ [''Order type must be either 'MARKET' or 'LIMIT'' @ [CHR 0x27]]
                    else errors);
          qty = to_Decimal lib quantity;
          errors = (case qty of
                      None \<Rightarrow> errors @ [''Quantity must be a valid number'']
                    | Some q \<Rightarrow>
                        (case decimal_le_zero q of
                           None \<Rightarrow> errors @ [''Quantity must be a valid number'']
                         | Some True \<Rightarrow> errors @ [''Quantity must be greater than 0'']
                         | Some False \<Rightarrow> errors));
          price_val = (if str_upper lib order_type = ''LIMIT'' then
                         (case price of
                            None \<Rightarrow> None
                          | Some p \<Rightarrow> if cli_value_bool lib p then to_Decimal lib p else None)
                       else None);
          errors = (if str_upper lib order_type = ''LIMIT'' then
                      (case price of
                         None \<Rightarrow> errors @ [''Price is required for LIMIT orders'']
                       | Some p \<Rightarrow>
                           if \<not> cli_value_bool lib p
                           then errors @ [''Price is required for LIMIT orders'']
                           else
                             (case to_Decimal lib p of
                                None \<Rightarrow> errors @ [''Price must be a valid number'']
                              | Some d \<Rightarrow>
                                  (case decimal_le_zero d of
                                     None \<Rightarrow> errors @ [''Price must be a valid number'']
                                   | Some True \<Rightarrow> errors @ [''Price must be greater than 0'']
                                   | Some False \<Rightarrow> errors)))
                    else errors)
      in if errors \<noteq> [] then Inl (ValueError (join [CHR 0x0A] errors))
         else
           (case qty of
              None \<Rightarrow> Inl (TypeError ''qty is not bound'')
            | Some q \<Rightarrow>
                Inr (str_upper lib symbol, str_upper lib side, str_upper lib order_type, float_of_Decimal lib q,
                     (case price_val of
                        None \<Rightarrow> None
                      | Some d \<Rightarrow> if decimal_bool d then Some (float_of_Decimal lib d) else None))))"

text \<open>
  \<open>format_order_response\<close>. \<open>str_json\<close> is what an f-string writes for a decoded
  JSON value; \<open>get_str\<close> is \<open>response.get(key, default)\<close> inside an f-string, the
  default being a string. The two marks are the UTF-8 bytes of U+274C and U+2705.
\<close>

definition cross_mark :: string where
  "cross_mark = [CHR 0xE2, CHR 0x9D, CHR 0x8C]"

definition check_mark :: string where
  "check_mark = [CHR 0xE2, CHR 0x9C, CHR 0x85]"

definition str_json :: "'f pylib \<Rightarrow> 'f jvalue \<Rightarrow> string" where
  "str_json lib v =
     (case v of
        JNull \<Rightarrow> ''None''
      | JBool b \<Rightarrow> (if b then ''True'' else ''False'')
      | JInt i \<Rightarrow> str_int i
      | JFloat x \<Rightarrow> float_str lib x
      | JStr s \<Rightarrow> s
      | JList l \<Rightarrow> repr_json lib v
      | JDict d \<Rightarrow> repr_json lib v)"

definition get_str :: "'f pylib \<Rightarrow> (string \<times> 'f jvalue) list \<Rightarrow> string \<Rightarrow> string \<Rightarrow> string" where
  "get_str lib response k dflt =
     (case map_of response k of None \<Rightarrow> dflt | Some v \<Rightarrow> str_json lib v)"

text \<open>\<open>v != 200\<close> for a decoded JSON value (\<open>True == 1\<close> and \<open>False == 0\<close>).\<close>

definition ne_200 :: "'f pylib \<Rightarrow> 'f jvalue \<Rightarrow> bool" where
  "ne_200 lib v =
     (case v of
        JInt i \<Rightarrow> i \<noteq> 200
      | JFloat x \<Rightarrow> \<not> float_eq_int lib x 200
      | _ \<Rightarrow> True)"

definition format_order_response :: "'f pylib \<Rightarrow> (string \<times> 'f jvalue) list \<Rightarrow> exn + string" where
  "format_order_response lib response =
     (if (case map_of response ''code'' of None \<Rightarrow> False | Some c \<Rightarrow> ne_200 lib c)
      then Inr (cross_mark @ '' Error: '' @ get_str lib response ''msg'' ''Unknown error'')
      else
        (let output_lines =
               [replicate 50 CHR ''='',
                check_mark @ '' ORDER PLACED SUCCESSFULLY'',
                replicate 50 CHR ''='',
                ''Order ID: '' @ get_str lib response ''orderId'' ''N/A'',
                ''Symbol: '' @ get_str lib response ''symbol'' ''N/A'',
                ''Side: '' @ get_str lib response ''side'' ''N/A'',
                ''Type: '' @ get_str lib response ''type'' ''N/A'',
                ''Status: '' @ get_str lib response ''status'' ''N/A'',
                ''Quantity: '' @ get_str lib response ''origQty'' ''N/A'',
                ''Executed Quantity: '' @ get_str lib response ''executedQty'' ''0'',
                ''Price: '' @ get_str lib response ''price'' ''N/A''];
             tail_lines =
               [''Time: '' @ get_str lib response ''updateTime'' ''N/A'',
                replicate 50 CHR ''='']
         in case map_of response ''avgPrice'' of
              None \<Rightarrow> Inr (join [CHR 0x0A] (output_lines @ tail_lines))
            | Some a \<Rightarrow>
                (case float_of_json lib a of
                   Inl e \<Rightarrow> Inl e
                 | Inr x \<Rightarrow>
                     if float_gt_zero lib x
                     then Inr (join [CHR 0x0A]
                                 (output_lines @ [''Average Price: '' @ str_json lib a] @ tail_lines))
                     else Inr (join [CHR 0x0A] (output_lines @ tail_lines)))))"

text \<open>
  A step of the program that reads or changes the world and may raise:
  \<open>bind\<close> runs the next step unless an exception was raised, \<open>lift\<close> is a step
  that leaves the world alone.
\<close>

type_synonym ('a, 'f) step = "'f world \<Rightarrow> (exn + 'a) \<times> 'f world"

definition bind :: "('a, 'f) step \<Rightarrow> ('a \<Rightarrow> ('b, 'f) step) \<Rightarrow> ('b, 'f) step" where
  "bind m k w = (case m w of (Inl e, w') \<Rightarrow> (Inl e, w') | (Inr x, w') \<Rightarrow> k x w')"

definition lift :: "exn + 'a \<Rightarrow> ('a, 'f) step" where
  "lift r w = (r, w)"

text \<open>\<open>input(prompt)\<close>: the next line of standard input, \<open>EOFError\<close> when there is none.\<close>

definition input :: "(string, 'f) step" where
  "input w =
     (case stdin w of
        [] \<Rightarrow> (Inl (EOFError ''EOF when reading a line''), w)
      | l # ls \<Rightarrow> (Inr l, w\<lparr>stdin := ls\<rparr>))"

text \<open>
  \<open>self.format_order_response(response)\<close> as the two modes call it, on whatever
  \<open>place_order\<close> returned: a decoded body that is not a dict raises (a
  \<open>TypeError\<close> or an \<open>AttributeError\<close>, which the callers handle alike).
\<close>

definition format_response :: "'f pylib \<Rightarrow> 'f jvalue \<Rightarrow> exn + string" where
  "format_response lib response =
     (case response of
        JDict d \<Rightarrow> format_order_response lib d
      | _ \<Rightarrow> Inl (TypeError ''response is not a dict''))"

text \<open>
  \<open>OrderCLI.__init__\<close>: \<open>Inl code\<close> is \<open>sys.exit(code)\<close>, \<open>Inr\<close> holds the
  client of the new object.
\<close>

definition OrderCLI :: "Config \<Rightarrow> nat + client" where
  "OrderCLI c =
     (case validate_config c of
        Inl e \<Rightarrow> Inl 1
      | Inr _ \<Rightarrow> Inr (BinanceFuturesClient (API_KEY c) (SECRET_KEY c)))"

text \<open>
  \<open>place_order_interactive\<close>: \<open>interactive_body\<close> is the \<open>try\<close> block after the
  connection test; every handler prints and returns, so the method yields the world
  it leaves behind.
\<close>

definition interactive_body :: "'f pylib \<Rightarrow> 'f server \<Rightarrow> client \<Rightarrow> (unit, 'f) step" where
  "interactive_body lib srv cl =
     bind input (\<lambda>symbol.
     bind input (\<lambda>side.
     bind input (\<lambda>order_type.
     bind input (\<lambda>quantity.
     bind (if str_upper lib (str_strip lib order_type) = ''LIMIT''
           then bind input (\<lambda>p. lift (Inr (Some (Text (str_strip lib p)))))
           else lift (Inr None)) (\<lambda>price.
     bind (lift (validate_inputs lib (str_strip lib symbol) (str_strip lib side) (str_strip lib order_type)
                   (Text (str_strip lib quantity)) price)) (\<lambda>(symbol, side, order_type, qty, price_val).
     bind input (\<lambda>confirm.
       if str_lower lib (str_strip lib confirm) \<noteq> ''yes'' then lift (Inr ())
       else
         bind (place_order lib srv cl symbol side order_type qty price_val) (\<lambda>response.
         bind (lift (format_response lib response)) (\<lambda>text. lift (Inr ()))))))))))"

definition place_order_interactive :: "'f pylib \<Rightarrow> 'f server \<Rightarrow> client \<Rightarrow> 'f world \<Rightarrow> 'f world" where
  "place_order_interactive lib srv cl w =
     (case test_connection lib srv cl w of
        (False, w') \<Rightarrow> w'
      | (True, w') \<Rightarrow> snd (interactive_body lib srv cl w'))"

text \<open>
  \<open>run_from_args\<close>: \<open>Some 1\<close> is \<open>sys.exit(1)\<close>, \<open>None\<close> is a normal return.
\<close>

datatype 'f args =
    NoMode
  | Interactive
  | Place string string string 'f "'f option"

definition args_body ::
  "'f pylib \<Rightarrow> 'f server \<Rightarrow> client \<Rightarrow> string \<Rightarrow> string \<Rightarrow> string \<Rightarrow> 'f \<Rightarrow> 'f option \<Rightarrow> (unit, 'f) step" where
  "args_body lib srv cl a_symbol a_side a_order_type a_quantity a_price =
     bind (lift (validate_inputs lib a_symbol a_side a_order_type
                   (Flt a_quantity) (map_option Flt a_price))) (\<lambda>(symbol, side, order_type, qty, price_val).
     bind (place_order lib srv cl symbol side order_type qty price_val) (\<lambda>response.
     bind (lift (format_response lib response)) (\<lambda>text. lift (Inr ()))))"

definition run_from_args ::
  "'f pylib \<Rightarrow> 'f server \<Rightarrow> client \<Rightarrow> string \<Rightarrow> string \<Rightarrow> string \<Rightarrow> 'f \<Rightarrow> 'f option \<Rightarrow> 'f world
     \<Rightarrow> nat option \<times> 'f world" where
  "run_from_args lib srv cl a_symbol a_side a_order_type a_quantity a_price w =
     (case test_connection lib srv cl w of
        (False, w') \<Rightarrow> (Some 1, w')
      | (True, w') \<Rightarrow>
          (case args_body lib srv cl a_symbol a_side a_order_type a_quantity a_price w' of
             (Inl e, w'') \<Rightarrow> (Some 1, w'')
           | (Inr _, w'') \<Rightarrow> (None, w'')))"

text \<open>
  \<open>main\<close>, after \<open>parse_args\<close>: the exit status of the process (0 when \<open>main\<close>
  returns) and the world it leaves behind. The module \<open>config\<close> has read the
  environment when it was imported.
\<close>

definition main :: "'f pylib \<Rightarrow> 'f server \<Rightarrow> environ \<Rightarrow> 'f args \<Rightarrow> 'f world \<Rightarrow> nat \<times> 'f world" where
  "main lib srv env args w =
     (case OrderCLI (load_Config env) of
        Inl code \<Rightarrow> (code, w)
      | Inr cl \<Rightarrow>
          (case args of
             Place a_symbol a_side a_order_type a_quantity a_price \<Rightarrow>
               (case run_from_args lib srv cl a_symbol a_side a_order_type a_quantity a_price w of
                  (Some code, w') \<Rightarrow> (code, w')
                | (None, w') \<Rightarrow> (0, w'))
           | _ \<Rightarrow> (0, place_order_interactive lib srv cl w)))"

section \<open>A library instance for evaluation\<close>

text \<open>
  To evaluate the definitions at concrete inputs, \<open>test_lib\<close> takes floats to be
  exact numbers (\<open>decimal\<close> again): comparisons and \<open>round\<close> are exact, \<open>str\<close>
  writes up to eight decimals, \<open>Decimal(s)\<close> reads a plain literal (sign, digits,
  optional fraction), and the digest is a placeholder that shows its two arguments.
  Its \<open>upper\<close>, \<open>lower\<close> and \<open>strip\<close> are those of Python on ASCII text, and
  leave every other byte alone.
\<close>

definition ascii_upper_char :: "char \<Rightarrow> char" where
  "ascii_upper_char c =
     (case map_of (zip ''abcdefghijklmnopqrstuvwxyz'' ''ABCDEFGHIJKLMNOPQRSTUVWXYZ'') c of
        Some u \<Rightarrow> u
      | None \<Rightarrow> c)"

definition ascii_upper :: "string \<Rightarrow> string" where
  "ascii_upper s = map ascii_upper_char s"

definition ascii_lower_char :: "char \<Rightarrow> char" where
  "ascii_lower_char c =
     (case map_of (zip ''ABCDEFGHIJKLMNOPQRSTUVWXYZ'' ''abcdefghijklmnopqrstuvwxyz'') c of
        Some l \<Rightarrow> l
      | None \<Rightarrow> c)"

definition ascii_lower :: "string \<Rightarrow> string" where
  "ascii_lower s = map ascii_lower_char s"

definition is_space :: "char \<Rightarrow> bool" where
  "is_space c \<longleftrightarrow>
     c \<in> set [CHR '' '', CHR 0x09, CHR 0x0A, CHR 0x0B, CHR 0x0C, CHR 0x0D,
              CHR 0x1C, CHR 0x1D, CHR 0x1E, CHR 0x1F]"

definition ascii_strip :: "string \<Rightarrow> string" where
  "ascii_strip s = rev (dropWhile is_space (rev (dropWhile is_space s)))"


fun ideal_le_zero :: "decimal \<Rightarrow> bool" where
  "ideal_le_zero (Num r) = (r \<le> 0)"
| "ideal_le_zero NegInf = True"
| "ideal_le_zero PosInf = False"
| "ideal_le_zero NaN = False"

fun ideal_gt_zero :: "decimal \<Rightarrow> bool" where
  "ideal_gt_zero (Num r) = (0 < r)"
| "ideal_gt_zero PosInf = True"
| "ideal_gt_zero NegInf = False"
| "ideal_gt_zero NaN = False"

fun ideal_eq_int :: "decimal \<Rightarrow> int \<Rightarrow> bool" where
  "ideal_eq_int (Num r) i = (r = of_int i)"
| "ideal_eq_int PosInf i = False"
| "ideal_eq_int NegInf i = False"
| "ideal_eq_int NaN i = False"

definition round_half_even :: "rat \<Rightarrow> int" where
  "round_half_even x =
     (let f = \<lfloor>x\<rfloor>; d = x - of_int f
      in if d < 1 / 2 then f
         else if 1 / 2 < d then f + 1
         else if even f then f else f + 1)"

fun ideal_round :: "decimal \<Rightarrow> nat \<Rightarrow> decimal" where
  "ideal_round (Num r) n = Num (of_int (round_half_even (r * 10 ^ n)) / 10 ^ n)"
| "ideal_round PosInf n = PosInf"
| "ideal_round NegInf n = NegInf"
| "ideal_round NaN n = NaN"

definition strip_zeros :: "string \<Rightarrow> string" where
  "strip_zeros ds = (case rev (dropWhile (\<lambda>c. c = CHR ''0'') (rev ds)) of [] \<Rightarrow> ''0'' | t \<Rightarrow> t)"

definition pad8 :: "string \<Rightarrow> string" where
  "pad8 ds = replicate (8 - length ds) CHR ''0'' @ ds"

fun ideal_str :: "decimal \<Rightarrow> string" where
  "ideal_str (Num r) =
     (let a = \<bar>r\<bar>; whole = \<lfloor>a\<rfloor>; frac = \<lfloor>(a - of_int whole) * 10 ^ 8\<rfloor>
      in (if r < 0 then ''-'' else []) @ str_int whole @ ''.'' @ strip_zeros (pad8 (str_int frac)))"
| "ideal_str PosInf = ''inf''"
| "ideal_str NegInf = ''-inf''"
| "ideal_str NaN = ''nan''"

definition digit_val :: "char \<Rightarrow> nat option" where
  "digit_val c = map_of (zip ''0123456789'' [0, 1, 2, 3, 4, 5, 6, 7, 8, 9]) c"

fun digits_val :: "nat \<Rightarrow> string \<Rightarrow> nat option" where
  "digits_val acc [] = Some acc"
| "digits_val acc (c # cs) =
     (case digit_val c of None \<Rightarrow> None | Some d \<Rightarrow> digits_val (10 * acc + d) cs)"

definition plain_decimal :: "string \<Rightarrow> decimal option" where
  "plain_decimal s =
     (let (neg, body) = (case s of
                           [] \<Rightarrow> (False, [])
                         | c # t \<Rightarrow> if c = CHR ''-'' then (True, t)
                                    else if c = CHR ''+'' then (False, t) else (False, s));
          whole = takeWhile (\<lambda>c. c \<noteq> CHR ''.'') body;
          frac = drop 1 (dropWhile (\<lambda>c. c \<noteq> CHR ''.'') body)
      in if whole @ frac = [] then None
         else
           (case (digits_val 0 whole, digits_val 0 frac) of
              (Some a, Some b) \<Rightarrow>
                Some (Num ((if neg then - 1 else 1) * (of_nat a + of_nat b / 10 ^ length frac)))
            | _ \<Rightarrow> None))"

definition ideal_float_of_json :: "decimal jvalue \<Rightarrow> exn + decimal" where
  "ideal_float_of_json v =
     (case v of
        JInt i \<Rightarrow> Inr (Num (of_int i))
      | JFloat x \<Rightarrow> Inr x
      | JBool b \<Rightarrow> Inr (Num (if b then 1 else 0))
      | JStr s \<Rightarrow>
          (case plain_decimal s of
             None \<Rightarrow> Inl (ValueError (''could not convert string to float: '' @ s))
           | Some d \<Rightarrow> Inr d)
      | _ \<Rightarrow> Inl (TypeError ''float() argument must be a string or a real number''))"

definition test_lib :: "decimal pylib" where
  "test_lib =
     \<lparr>str_upper = ascii_upper,
      str_lower = ascii_lower,
      str_strip = ascii_strip,
      hmac_sha256_hex = (\<lambda>key msg. ''hmac('' @ key @ '','' @ msg @ '')''),
      float_le_zero = ideal_le_zero,
      float_gt_zero = ideal_gt_zero,
      float_eq_int = ideal_eq_int,
      float_bool = decimal_bool,
      float_round = ideal_round,
      float_str = ideal_str,
      float_of_Decimal = (\<lambda>d. d),
      float_of_json = ideal_float_of_json,
      Decimal_of_str = plain_decimal,
      Decimal_of_float = (\<lambda>x. x),
      repr_json = (\<lambda>v. ''<json>'')\<rparr>"

text \<open>A client, a world and a server to run the program against.\<close>

definition test_client :: client where
  "test_client = BinanceFuturesClient ''key'' ''secret''"

definition test_world :: "decimal world" where
  "test_world = \<lparr>now_ms = 1700000000000, stdin = [], sent = []\<rparr>"

definition ok_response :: "decimal response" where
  "ok_response =
     \<lparr>status_code = 200, reason = ''OK'', url = ''https://testnet.binance.vision/api/v3/order'',
      history = [], json = Inr (JDict [(''orderId'', JInt 123)])\<rparr>"

definition ok_server :: "decimal server" where
  "ok_server seen rq = Inr ok_response"

definition redirected_response :: "decimal response" where
  "redirected_response =
     ok_response\<lparr>history := [''http://testnet.binance.vision/api/v3/order'']\<rparr>"

definition redirecting_server :: "decimal server" where
  "redirecting_server seen rq = Inr redirected_response"

definition not_found_response :: "decimal response" where
  "not_found_response =
     \<lparr>status_code = 404, reason = ''Not Found'',
      url = ''https://testnet.binance.vision/api/v3/account'', history = [],
      json = Inr (JDict [(''code'', JInt (- 1121)), (''msg'', JStr ''Invalid symbol.'')])\<rparr>"

definition not_found_server :: "decimal server" where
  "not_found_server seen rq = Inr not_found_response"

definition refusing_server :: "decimal server" where
  "refusing_server seen rq = Inl (RequestException ''Connection refused'')"

definition multiple_choices_response :: "decimal response" where
  "multiple_choices_response =
     \<lparr>status_code = 300, reason = ''Multiple Choices'',
      url = ''https://testnet.binance.vision/api/v3/account'', history = [],
      json = Inr (JDict [(''choices'', JList [])])\<rparr>"

definition multiple_choices_server :: "decimal server" where
  "multiple_choices_server seen rq = Inr multiple_choices_response"

text \<open>A server that answers the ping with 200 and everything else with 404.\<close>

definition routing_server :: "decimal server" where
  "routing_server seen rq =
     (if req_url rq = ''https://testnet.binance.vision/api/v3/ping''
      then Inr ok_response else Inr not_found_response)"

text \<open>The response of the round trip in the specification.\<close>

definition order_response_example :: "(string \<times> 'f jvalue) list" where
  "order_response_example =
     [(''orderId'', JInt 123), (''symbol'', JStr ''BTCUSDT''), (''side'', JStr ''BUY''),
      (''type'', JStr ''MARKET''), (''status'', JStr ''FILLED''), (''origQty'', JStr ''0.001''),
      (''executedQty'', JStr ''0.001''), (''price'', JStr ''0''),
      (''updateTime'', JInt 1234567890)]"

section \<open>The constraints of the specification\<close>

text \<open>
  The violated constraints of a call of \<open>placeOrder\<close>, as the specification lists
  them: a bad side (not BUY or SELL), a bad order type (not MARKET or LIMIT), LIMIT
  without a price, a quantity of 0 or less. Each constraint is looked at on its own,
  and the list holds the message of every one that is violated.
\<close>

definition place_order_violations :: "'f pylib \<Rightarrow> string \<Rightarrow> string \<Rightarrow> 'f \<Rightarrow> 'f option \<Rightarrow> string list" where
  "place_order_violations lib side order_type quantity price =
     (if side \<notin> set [''BUY'', ''SELL'']
      then [''Side must be either 'BUY' or 'SELL'' @ [CHR 0x27]] else [])
     @ (if order_type \<notin> set [''MARKET'', ''LIMIT'']
        then [''Order type must be either 'MARKET' or 'LIMIT'' @ [CHR 0x27]] else [])
     @ (if order_type = ''LIMIT'' \<and> price = None
        then [''Price is required for LIMIT orders''] else [])
     @ (if float_le_zero lib quantity
        then [''Quantity must be greater than 0''] else [])"

text \<open>
  The violated constraints of the inputs of the CLI, as the specification lists
  them: the symbol has at least 6 characters; the side is BUY or SELL and the order
  type is MARKET or LIMIT, both after \<open>str.upper\<close>, as the CLI reads them;
  the quantity is a valid number above 0; and, when the order type is LIMIT, there
  is a price and it is a valid number above 0. A number is valid when a
  \<open>Decimal\<close> can be built from it and compared with 0. Each constraint is looked
  at on its own, and the list holds the message of every one that fails.
\<close>

definition number_violations :: "'f pylib \<Rightarrow> string \<Rightarrow> 'f cli_value \<Rightarrow> string list" where
  "number_violations lib name v =
     (case to_Decimal lib v of
        None \<Rightarrow> [name @ '' must be a valid number'']
      | Some d \<Rightarrow>
          (case decimal_le_zero d of
             None \<Rightarrow> [name @ '' must be a valid number'']
           | Some True \<Rightarrow> [name @ '' must be greater than 0'']
           | Some False \<Rightarrow> []))"

definition cli_violations ::
  "'f pylib \<Rightarrow> string \<Rightarrow> string \<Rightarrow> string \<Rightarrow> 'f cli_value \<Rightarrow> 'f cli_value option \<Rightarrow> string list" where
  "cli_violations lib symbol side order_type quantity price =
     (if 6 \<le> py_len symbol then []
      else [''Symbol must be at least 6 characters (e.g., BTCUSDT)''])
     @ (if str_upper lib side \<in> set [''BUY'', ''SELL''] then []
        else [''Side must be either 'BUY' or 'SELL'' @ [CHR 0x27]])
     @ (if str_upper lib order_type \<in> set [''MARKET'', ''LIMIT''] then []
        else [''Order type must be either 'MARKET' or 'LIMIT'' @ [CHR 0x27]])
     @ number_violations lib ''Quantity'' quantity
     @ (if str_upper lib order_type = ''LIMIT'' then
          (case price of
             None \<Rightarrow> [''Price is required for LIMIT orders'']
           | Some p \<Rightarrow>
               if cli_value_bool lib p then number_violations lib ''Price'' p
               else [''Price is required for LIMIT orders''])
        else [])"

section \<open>Parameter dictionaries\<close>

lemma map_of_assign: "map_of (assign d k v) k' = (if k' = k then Some v else map_of d k')"
  by (induction d) auto

lemma keys_assign:
  "keys (assign d k v) = (if k \<in> set (keys d) then keys d else keys d @ [k])"
  by (induction d) (force simp: keys_def)+

lemma assign_fresh: "k \<notin> set (keys d) \<Longrightarrow> assign d k v = d @ [(k, v)]"
  by (induction d) (auto simp: keys_def)

lemma assign_fresh2:
  "''timestamp'' \<notin> set (keys ps) \<Longrightarrow> ''signature'' \<notin> set (keys ps) \<Longrightarrow>
   assign ps ''timestamp'' t = ps @ [(''timestamp'', t)]
   \<and> assign (ps @ [(''timestamp'', t)]) ''signature'' s = ps @ [(''timestamp'', t), (''signature'', s)]"
proof -
  assume a: "''timestamp'' \<notin> set (keys ps)" "''signature'' \<notin> set (keys ps)"
  then have "''signature'' \<notin> set (keys (ps @ [(''timestamp'', t)]))"
    by (simp add: keys_def)
  with a show ?thesis
    by (simp add: assign_fresh)
qed

lemma keys_order_params:
  "keys (order_params lib symbol side order_type quantity) =
     [''symbol'', ''side'', ''type'', ''quantity'', ''newOrderRespType'']"
  by (simp add: order_params_def keys_def)

lemma keys_signed_params:
  "keys (signed_params lib cl now ps) =
     (let ks = (if ''timestamp'' \<in> set (keys ps) then keys ps else keys ps @ [''timestamp''])
      in if ''signature'' \<in> set ks then ks else ks @ [''signature''])"
  by (simp add: signed_params_def Let_def keys_assign)

lemma map_of_signed_params:
  "k \<noteq> ''timestamp'' \<Longrightarrow> k \<noteq> ''signature'' \<Longrightarrow>
   map_of (signed_params lib cl now ps) k = map_of ps k"
  by (simp add: signed_params_def Let_def map_of_assign)

lemma place_order_params_fresh:
  "''timestamp'' \<notin> set (keys (order_params lib symbol side order_type quantity))
   \<and> ''signature'' \<notin> set (keys (order_params lib symbol side order_type quantity))
   \<and> ''timestamp'' \<notin> set (keys (assign (assign (order_params lib symbol side order_type quantity)
                                    ''timeInForce'' (PStr ''GTC'')) ''price'' (PFloat x)))
   \<and> ''signature'' \<notin> set (keys (assign (assign (order_params lib symbol side order_type quantity)
                                    ''timeInForce'' (PStr ''GTC'')) ''price'' (PFloat x)))"
  by (simp add: keys_assign keys_order_params)

section \<open>What one HTTP call returns\<close>

lemma send_body_GET:
  "srv (sent w) \<lparr>req_method = ''GET'', req_url = u, req_headers = session_headers cl,
                  req_data = ps\<rparr> = Inr r \<Longrightarrow>
   fst (send_body srv cl ''GET'' u ps w) = after_response r"
  by (simp add: send_body_def http_call_def)

lemma send_body_POST:
  "srv (sent w) \<lparr>req_method = ''POST'', req_url = u, req_headers = session_headers cl,
                  req_data = ps\<rparr> = Inr r \<Longrightarrow>
   fst (send_body srv cl ''POST'' u ps w) =
     (if history r \<noteq> []
      then Inl (Exception (''Request redirected! Wrong URL or endpoint. Final URL: '' @ url r))
      else after_response r)"
  by (simp add: send_body_def http_call_def)

lemma send_body_failure:
  "srv (sent w) \<lparr>req_method = method, req_url = u, req_headers = session_headers cl,
                  req_data = ps\<rparr> = Inl e \<Longrightarrow>
   method = ''GET'' \<or> method = ''POST'' \<Longrightarrow>
   fst (send_body srv cl method u ps w) = Inl e"
  by (auto simp: send_body_def http_call_def)

lemma fst_send_request:
  "fst (send_request lib srv cl method endpoint params signed w) =
   send_handlers (fst (send_body srv cl method
     (req_url (request_sent lib cl method endpoint params signed w))
     (req_data (request_sent lib cl method endpoint params signed w)) w))"
  by (simp add: send_request_def request_sent_def Let_def split: prod.splits)

lemma send_request_GET_answer:
  "srv (sent w) (request_sent lib cl ''GET'' endpoint params signed w) = Inr r \<Longrightarrow>
   fst (send_request lib srv cl ''GET'' endpoint params signed w) =
     send_handlers (after_response r)"
  by (simp add: fst_send_request) (simp add: request_sent_def send_body_GET)

lemma send_request_POST_answer:
  "srv (sent w) (request_sent lib cl ''POST'' endpoint params signed w) = Inr r \<Longrightarrow>
   fst (send_request lib srv cl ''POST'' endpoint params signed w) =
     send_handlers
       (if history r \<noteq> []
        then Inl (Exception (''Request redirected! Wrong URL or endpoint. Final URL: '' @ url r))
        else after_response r)"
  by (simp add: fst_send_request) (simp add: request_sent_def send_body_POST)

lemma send_request_failure:
  "srv (sent w) (request_sent lib cl method endpoint params signed w) = Inl e \<Longrightarrow>
   method = ''GET'' \<or> method = ''POST'' \<Longrightarrow>
   fst (send_request lib srv cl method endpoint params signed w) = send_handlers (Inl e)"
  by (simp add: fst_send_request) (simp add: request_sent_def send_body_failure)

lemma after_response_error:
  "400 \<le> status_code r \<Longrightarrow> status_code r < 600 \<Longrightarrow>
   after_response r =
     Inl (RequestException
       (str_nat (status_code r)
        @ (if status_code r < 500 then '' Client Error: '' else '' Server Error: '')
        @ reason r @ '' for url: '' @ url r))"
  by (simp add: after_response_def raise_for_status_def)

lemma sent_send_request:
  "method = ''GET'' \<or> method = ''POST'' \<Longrightarrow>
   sent (snd (send_request lib srv cl method endpoint params signed w)) =
     sent w @ [request_sent lib cl method endpoint params signed w]"
  by (auto simp: send_request_def send_body_def http_call_def request_sent_def Let_def
        split: prod.splits sum.splits)

lemma snd_send_request_POST:
  "snd (send_request lib srv cl ''POST'' endpoint params signed w) =
     w\<lparr>sent := sent w @
       [\<lparr>req_method = ''POST'', req_url = base_url cl @ endpoint,
         req_headers = session_headers cl,
         req_data = (if signed
                     then signed_params lib cl (now_ms w) (case params of None \<Rightarrow> [] | Some d \<Rightarrow> d)
                     else (case params of None \<Rightarrow> [] | Some d \<Rightarrow> d))\<rparr>]\<rparr>"
  by (simp add: send_request_def send_body_def http_call_def Let_def split: prod.splits sum.splits)

lemma snd_send_request_GET:
  "snd (send_request lib srv cl ''GET'' endpoint params signed w) =
     w\<lparr>sent := sent w @
       [\<lparr>req_method = ''GET'', req_url = base_url cl @ endpoint,
         req_headers = session_headers cl,
         req_data = (if signed
                     then signed_params lib cl (now_ms w) (case params of None \<Rightarrow> [] | Some d \<Rightarrow> d)
                     else (case params of None \<Rightarrow> [] | Some d \<Rightarrow> d))\<rparr>]\<rparr>"
  by (simp add: send_request_def send_body_def http_call_def Let_def split: prod.splits sum.splits)

lemma after_ok_response: "after_response ok_response = Inr (JDict [(''orderId'', JInt 123)])"
  by (simp add: after_response_def raise_for_status_def ok_response_def)

section \<open>The checks of \<open>place_order\<close>\<close>

lemma place_order_side:
  "side \<notin> set [''BUY'', ''SELL''] \<Longrightarrow>
   place_order lib srv cl symbol side order_type quantity price w =
     (Inl (ValueError (''Side must be either 'BUY' or 'SELL'' @ [CHR 0x27])), w)"
  by (simp add: place_order_def)

lemma place_order_type:
  "side \<in> set [''BUY'', ''SELL''] \<Longrightarrow> order_type \<notin> set [''MARKET'', ''LIMIT''] \<Longrightarrow>
   place_order lib srv cl symbol side order_type quantity price w =
     (Inl (ValueError (''Order type must be either 'MARKET' or 'LIMIT'' @ [CHR 0x27])), w)"
  by (simp add: place_order_def)

lemma place_order_no_price:
  "side \<in> set [''BUY'', ''SELL''] \<Longrightarrow>
   place_order lib srv cl symbol side ''LIMIT'' quantity None w =
     (Inl (ValueError ''Price is required for LIMIT orders''), w)"
  by (simp add: place_order_def)

lemma place_order_quantity:
  "side \<in> set [''BUY'', ''SELL''] \<Longrightarrow> order_type \<in> set [''MARKET'', ''LIMIT''] \<Longrightarrow>
   \<not> (order_type = ''LIMIT'' \<and> price = None) \<Longrightarrow> float_le_zero lib quantity \<Longrightarrow>
   place_order lib srv cl symbol side order_type quantity price w =
     (Inl (ValueError ''Quantity must be greater than 0''), w)"
  by (simp add: place_order_def)

lemma place_order_MARKET:
  "side \<in> set [''BUY'', ''SELL''] \<Longrightarrow> \<not> float_le_zero lib quantity \<Longrightarrow>
   place_order lib srv cl symbol side ''MARKET'' quantity price w =
     send_request lib srv cl ''POST'' ''/api/v3/order''
       (Some (order_params lib symbol side ''MARKET'' quantity)) True w"
  by (simp add: place_order_def)

lemma place_order_LIMIT:
  "side \<in> set [''BUY'', ''SELL''] \<Longrightarrow> \<not> float_le_zero lib quantity \<Longrightarrow>
   place_order lib srv cl symbol side ''LIMIT'' quantity (Some p) w =
     send_request lib srv cl ''POST'' ''/api/v3/order''
       (Some (assign (assign (order_params lib symbol side ''LIMIT'' quantity)
                        ''timeInForce'' (PStr ''GTC''))
                ''price'' (PFloat (float_round lib p 2)))) True w"
  by (simp add: place_order_def)

lemma place_order_invalid:
  assumes "place_order_violations lib side order_type quantity price \<noteq> []"
  shows "place_order lib srv cl symbol side order_type quantity price w =
           (Inl (ValueError (hd (place_order_violations lib side order_type quantity price))), w)"
proof (cases "side \<in> set [''BUY'', ''SELL'']")
  case False
  then show ?thesis
    by (simp add: place_order_side place_order_violations_def)
next
  case side: True
  show ?thesis
  proof (cases "order_type \<in> set [''MARKET'', ''LIMIT'']")
    case False
    with side show ?thesis
      by (simp add: place_order_type place_order_violations_def)
  next
    case type: True
    show ?thesis
    proof (cases "order_type = ''LIMIT'' \<and> price = None")
      case True
      with side show ?thesis
        by (simp add: place_order_no_price place_order_violations_def)
    next
      case False
      with assms side type have "float_le_zero lib quantity"
        by (auto simp: place_order_violations_def split: if_splits)
      with side type False show ?thesis
        by (simp add: place_order_quantity place_order_violations_def)
    qed
  qed
qed

section \<open>Invalid orders\<close>

text \<open>
  Claim C1, as amended. A call of \<open>place_order\<close> with an invalid parameter (bad
  side, bad order type, LIMIT without price, or a quantity of 0 or less) fails with a
  \<open>ValueError\<close> before any HTTP call: the world, and with it the log of calls, is
  the one the call started in. The error reports the first violated constraint only,
  in the order side, order type, price, quantity.
\<close>

theorem place_order_reports_first_violation:
  assumes "place_order_violations lib side order_type quantity price \<noteq> []"
  shows "place_order lib srv cl symbol side order_type quantity price w =
           (Inl (ValueError (hd (place_order_violations lib side order_type quantity price))), w)"
  using assms by (rule place_order_invalid)

theorem place_order_reports_first_violation_witness:
  "place_order_violations test_lib ''HOLD'' ''LIMIT'' (Num 1) None \<noteq> []
   \<and> place_order test_lib ok_server test_client ''BTCUSDT'' ''HOLD'' ''LIMIT'' (Num 1) None test_world =
       (Inl (ValueError (''Side must be either 'BUY' or 'SELL'' @ [CHR 0x27])), test_world)"
proof -
  have v: "place_order_violations test_lib ''HOLD'' ''LIMIT'' (Num 1) None =
             [''Side must be either 'BUY' or 'SELL'' @ [CHR 0x27],
              ''Price is required for LIMIT orders'']"
    by (simp add: place_order_violations_def test_lib_def)
  then have "place_order_violations test_lib ''HOLD'' ''LIMIT'' (Num 1) None \<noteq> []"
    by simp
  from this place_order_reports_first_violation [OF this, of ok_server test_client "''BTCUSDT''" test_world] v
  show ?thesis by simp
qed

text \<open>
  Claim C1 as the specification states it fails: with a bad side, a bad order type
  and a quantity of 0, three constraints are violated; the error is the message about
  the side, and the messages about the order type and the quantity are nowhere in it.
\<close>

theorem place_order_all_violations_counterexample:
  "place_order_violations test_lib ''HOLD'' ''STOP'' (Num 0) None =
     [''Side must be either 'BUY' or 'SELL'' @ [CHR 0x27],
      ''Order type must be either 'MARKET' or 'LIMIT'' @ [CHR 0x27],
      ''Quantity must be greater than 0'']
   \<and> place_order test_lib ok_server test_client ''BTCUSDT'' ''HOLD'' ''STOP'' (Num 0) None test_world =
       (Inl (ValueError (''Side must be either 'BUY' or 'SELL'' @ [CHR 0x27])), test_world)
   \<and> \<not> sublist (''Order type must be either 'MARKET' or 'LIMIT'' @ [CHR 0x27])
         (''Side must be either 'BUY' or 'SELL'' @ [CHR 0x27])
   \<and> \<not> sublist ''Quantity must be greater than 0''
         (''Side must be either 'BUY' or 'SELL'' @ [CHR 0x27])"
  by (simp add: place_order_violations_def test_lib_def place_order_def sublist_Cons_right)

text \<open>
  A call of \<open>place_order\<close> with a quantity of 0 or less is rejected with a
  \<open>ValueError\<close> and makes no HTTP call, whatever the other parameters are.
\<close>

lemma place_order_rejects_nonpositive_quantity:
  assumes "float_le_zero lib quantity"
  shows "\<exists>m. place_order lib srv cl symbol side order_type quantity price w =
           (Inl (ValueError m), w)"
proof -
  from assms have "place_order_violations lib side order_type quantity price \<noteq> []"
    by (simp add: place_order_violations_def)
  then show ?thesis
    by (blast dest: place_order_invalid)
qed

text \<open>
  The price of a LIMIT order is rounded and sent as it is: no check looks at its
  sign, so an order with a price of 0 or less is posted.
\<close>

lemma place_order_limit_price_unchecked:
  assumes "side \<in> set [''BUY'', ''SELL'']" and "\<not> float_le_zero lib quantity"
    and "float_le_zero lib p"
  shows "sent (snd (place_order lib srv cl symbol side ''LIMIT'' quantity (Some p) w)) =
           sent w @ [request_sent lib cl ''POST'' ''/api/v3/order''
             (Some (assign (assign (order_params lib symbol side ''LIMIT'' quantity)
                              ''timeInForce'' (PStr ''GTC''))
                      ''price'' (PFloat (float_round lib p 2)))) True w]"
  using assms by (simp add: place_order_LIMIT sent_send_request)

text \<open>
  Claim C3 fails on the code. \<open>place_order\<close> rejects a quantity of 0 or less
  (\<open>place_order_rejects_nonpositive_quantity\<close>), but it never looks at the sign of
  the price: the LIMIT order \<open>place_order("BTCUSDT", "BUY", "LIMIT", 1.0, -5.0)\<close>
  passes the four checks, is posted to the order endpoint with the price \<open>-5\<close>
  among its parameters, and returns the answer of the server.
\<close>

theorem place_order_posts_nonpositive_limit_price:
  "float_le_zero test_lib (Num (- 5))
   \<and> fst (place_order test_lib ok_server test_client ''BTCUSDT'' ''BUY'' ''LIMIT'' (Num 1)
            (Some (Num (- 5))) test_world) = Inr (JDict [(''orderId'', JInt 123)])
   \<and> map req_url (sent (snd (place_order test_lib ok_server test_client ''BTCUSDT'' ''BUY'' ''LIMIT''
            (Num 1) (Some (Num (- 5))) test_world))) =
       [''https://testnet.binance.vision/api/v3/order'']
   \<and> map (\<lambda>rq. map_of (req_data rq) ''price'')
         (sent (snd (place_order test_lib ok_server test_client ''BTCUSDT'' ''BUY'' ''LIMIT''
            (Num 1) (Some (Num (- 5))) test_world))) =
       [Some (PFloat (Num (- 5)))]"
proof -
  let ?ps = "assign (assign (order_params test_lib ''BTCUSDT'' ''BUY'' ''LIMIT'' (Num 1))
                       ''timeInForce'' (PStr ''GTC''))
               ''price'' (PFloat (float_round test_lib (Num (- 5)) 2))"
  have le: "float_le_zero test_lib (Num (- 5))" and pos: "\<not> float_le_zero test_lib (Num 1)"
    by (simp_all add: test_lib_def)
  have rnd: "float_round test_lib (Num (- 5)) 2 = Num (- 5)"
    by code_simp
  have po: "place_order test_lib ok_server test_client ''BTCUSDT'' ''BUY'' ''LIMIT'' (Num 1)
              (Some (Num (- 5))) test_world =
            send_request test_lib ok_server test_client ''POST'' ''/api/v3/order''
              (Some ?ps) True test_world"
    using pos by (simp add: place_order_LIMIT)
  have r: "fst (send_request test_lib ok_server test_client ''POST'' ''/api/v3/order''
              (Some ?ps) True test_world) = Inr (JDict [(''orderId'', JInt 123)])"
    by (simp add: send_request_POST_answer [of ok_server _ _ _ _ _ _ ok_response]
          ok_server_def after_ok_response)
       (simp add: ok_response_def)
  have s: "sent (snd (send_request test_lib ok_server test_client ''POST'' ''/api/v3/order''
              (Some ?ps) True test_world)) =
           [request_sent test_lib test_client ''POST'' ''/api/v3/order'' (Some ?ps) True test_world]"
    by (simp add: sent_send_request test_world_def)
  have u: "req_url (request_sent test_lib test_client ''POST'' ''/api/v3/order'' (Some ?ps) True
             test_world) = ''https://testnet.binance.vision/api/v3/order''"
    by (simp add: request_sent_def test_client_def BinanceFuturesClient_def BASE_URL_def)
  have d: "map_of (req_data (request_sent test_lib test_client ''POST'' ''/api/v3/order'' (Some ?ps)
             True test_world)) ''price'' = Some (PFloat (Num (- 5)))"
    by (simp add: request_sent_def map_of_signed_params map_of_assign rnd)
  from le po r s u d show ?thesis by simp
qed

text \<open>
  Claim C5. With the order type LIMIT and no price, \<open>place_order\<close> fails with a
  \<open>ValueError\<close> and makes no HTTP call. With the order type MARKET, a valid side,
  a quantity that is not 0 or less and a price, \<open>place_order\<close> passes its checks
  and makes its HTTP call, and the
  parameters sent are the symbol, the side, the type, the quantity, the response
  type, the timestamp and the signature: there is no price among them.
\<close>

theorem limit_needs_price_market_ignores_price:
  "(\<exists>m. place_order lib srv cl symbol side ''LIMIT'' quantity None w = (Inl (ValueError m), w))
   \<and> (side \<in> set [''BUY'', ''SELL''] \<and> \<not> float_le_zero lib quantity \<longrightarrow>
        (\<exists>rq. sent (snd (place_order lib srv cl symbol side ''MARKET'' quantity (Some p) w)) =
                 sent w @ [rq]
             \<and> keys (req_data rq) =
                 [''symbol'', ''side'', ''type'', ''quantity'', ''newOrderRespType'',
                  ''timestamp'', ''signature'']))"
proof
  have "place_order_violations lib side ''LIMIT'' quantity None \<noteq> []"
    by (simp add: place_order_violations_def)
  then show "\<exists>m. place_order lib srv cl symbol side ''LIMIT'' quantity None w = (Inl (ValueError m), w)"
    by (blast dest: place_order_invalid)
next
  show "side \<in> set [''BUY'', ''SELL''] \<and> \<not> float_le_zero lib quantity \<longrightarrow>
        (\<exists>rq. sent (snd (place_order lib srv cl symbol side ''MARKET'' quantity (Some p) w)) =
                 sent w @ [rq]
             \<and> keys (req_data rq) =
                 [''symbol'', ''side'', ''type'', ''quantity'', ''newOrderRespType'',
                  ''timestamp'', ''signature''])"
  proof
    assume a: "side \<in> set [''BUY'', ''SELL''] \<and> \<not> float_le_zero lib quantity"
    then have "place_order lib srv cl symbol side ''MARKET'' quantity (Some p) w =
       send_request lib srv cl ''POST'' ''/api/v3/order''
         (Some (order_params lib symbol side ''MARKET'' quantity)) True w"
      by (simp add: place_order_MARKET)
    then show "\<exists>rq. sent (snd (place_order lib srv cl symbol side ''MARKET'' quantity (Some p) w)) =
                 sent w @ [rq]
             \<and> keys (req_data rq) =
                 [''symbol'', ''side'', ''type'', ''quantity'', ''newOrderRespType'',
                  ''timestamp'', ''signature'']"
      by (simp add: snd_send_request_POST keys_signed_params keys_order_params)
  qed
qed

theorem limit_needs_price_market_ignores_price_witness:
  "(\<exists>m. place_order test_lib ok_server test_client ''BTCUSDT'' ''BUY'' ''LIMIT'' (Num 1) None test_world =
         (Inl (ValueError m), test_world))
   \<and> ''BUY'' \<in> set [''BUY'', ''SELL''] \<and> \<not> float_le_zero test_lib (Num 1)
   \<and> (\<exists>rq. sent (snd (place_order test_lib ok_server test_client ''BTCUSDT'' ''BUY'' ''MARKET'' (Num 1)
                       (Some (Num 30000)) test_world)) = sent test_world @ [rq]
          \<and> keys (req_data rq) =
               [''symbol'', ''side'', ''type'', ''quantity'', ''newOrderRespType'',
                ''timestamp'', ''signature''])"
  using limit_needs_price_market_ignores_price
          [of test_lib ok_server test_client "''BTCUSDT''" "''BUY''" "Num 1" test_world "Num 30000"]
  by (simp add: test_lib_def)

section \<open>The parameters of an accepted order\<close>

text \<open>
  Claim C7. For an order that passes the checks of \<open>place_order\<close>, the HTTP call
  carries the symbol as \<open>symbol.upper()\<close>, the quantity as \<open>round(quantity, 8)\<close> and,
  for a LIMIT order, the price as \<open>round(price, 2)\<close>.
\<close>

theorem transmitted_order_parameters:
  assumes "side \<in> set [''BUY'', ''SELL'']"
    and "order_type \<in> set [''MARKET'', ''LIMIT'']"
    and "order_type = ''LIMIT'' \<longrightarrow> price \<noteq> None"
    and "\<not> float_le_zero lib quantity"
  shows "\<exists>rq. sent (snd (place_order lib srv cl symbol side order_type quantity price w)) = sent w @ [rq]
           \<and> map_of (req_data rq) ''symbol'' = Some (PStr (str_upper lib symbol))
           \<and> map_of (req_data rq) ''quantity'' = Some (PFloat (float_round lib quantity 8))
           \<and> (order_type = ''LIMIT'' \<longrightarrow>
                (\<exists>p. price = Some p
                   \<and> map_of (req_data rq) ''price'' = Some (PFloat (float_round lib p 2))))"
proof (cases "order_type = ''LIMIT''")
  case True
  with assms obtain p where p: "price = Some p" by auto
  from assms True p
  have "place_order lib srv cl symbol side order_type quantity price w =
     send_request lib srv cl ''POST'' ''/api/v3/order''
       (Some (assign (assign (order_params lib symbol side ''LIMIT'' quantity)
                        ''timeInForce'' (PStr ''GTC''))
                ''price'' (PFloat (float_round lib p 2)))) True w"
    by (simp add: place_order_LIMIT)
  with True p show ?thesis
    by (simp add: snd_send_request_POST map_of_signed_params map_of_assign order_params_def)
next
  case False
  with assms have m: "order_type = ''MARKET''" by auto
  from assms m
  have "place_order lib srv cl symbol side order_type quantity price w =
     send_request lib srv cl ''POST'' ''/api/v3/order''
       (Some (order_params lib symbol side ''MARKET'' quantity)) True w"
    by (simp add: place_order_MARKET)
  with m show ?thesis
    by (simp add: snd_send_request_POST map_of_signed_params order_params_def)
qed

theorem transmitted_order_parameters_witness:
  "''BUY'' \<in> set [''BUY'', ''SELL''] \<and> ''LIMIT'' \<in> set [''MARKET'', ''LIMIT'']
   \<and> Some (Num (123456 / 1000)) \<noteq> (None :: decimal option)
   \<and> \<not> float_le_zero test_lib (Num (1 / 3))
   \<and> (\<exists>rq. sent (snd (place_order test_lib ok_server test_client ''btcusdt'' ''BUY'' ''LIMIT''
                        (Num (1 / 3)) (Some (Num (123456 / 1000))) test_world)) = sent test_world @ [rq]
          \<and> map_of (req_data rq) ''symbol'' = Some (PStr ''BTCUSDT'')
          \<and> map_of (req_data rq) ''quantity'' = Some (PFloat (Num (33333333 / 100000000)))
          \<and> map_of (req_data rq) ''price'' = Some (PFloat (Num (12346 / 100))))"
proof -
  have q: "float_round test_lib (Num (1 / 3)) 8 = Num (33333333 / 100000000)"
    by code_simp
  have p: "float_round test_lib (Num (123456 / 1000)) 2 = Num (12346 / 100)"
    by code_simp
  have u: "str_upper test_lib ''btcusdt'' = ''BTCUSDT''"
    by (simp add: test_lib_def ascii_upper_def ascii_upper_char_def)
  have pos: "\<not> float_le_zero test_lib (Num (1 / 3))"
    by (simp add: test_lib_def)
  from transmitted_order_parameters
         [of "''BUY''" "''LIMIT''" "Some (Num (123456 / 1000))" test_lib "Num (1 / 3)"
             ok_server test_client "''btcusdt''" test_world] pos q p u
  show ?thesis by simp
qed

section \<open>Signed requests\<close>

text \<open>
  Claim C4. A signed call of \<open>_send_request\<close> first stores the clock, in
  milliseconds, under \<open>timestamp\<close>, then stores under \<open>signature\<close> the
  HMAC-SHA256 hex digest, keyed by the secret key, of the URL-encoding of the
  parameters as they are at that moment, timestamp included; what is sent is that
  signed set with the signature stored into it. When the caller's parameters have
  neither key, as is the case for every caller in the program
  (\<open>place_order_params_fresh\<close>; \<open>get_account_info\<close> passes none), the signed
  set is the caller's parameters followed by the timestamp, and what is sent is the
  signed set followed by the signature.
\<close>

theorem signature_over_sent_parameters:
  assumes "method = ''GET'' \<or> method = ''POST''"
  shows "\<exists>rq. sent (snd (send_request lib srv cl method endpoint params True w)) = sent w @ [rq]
           \<and> (let ps = (case params of None \<Rightarrow> [] | Some d \<Rightarrow> d);
                   signed_set = assign ps ''timestamp'' (PInt (now_ms w));
                   signature = hmac_sha256_hex lib (secret_key cl) (urlencode lib signed_set)
               in req_data rq = assign signed_set ''signature'' (PStr signature)
                  \<and> (''timestamp'' \<notin> set (keys ps) \<and> ''signature'' \<notin> set (keys ps) \<longrightarrow>
                       signed_set = ps @ [(''timestamp'', PInt (now_ms w))]
                     \<and> req_data rq = signed_set @ [(''signature'', PStr signature)]))"
  using assms
  by (auto simp: snd_send_request_GET snd_send_request_POST signed_params_def
        generate_signature_def Let_def assign_fresh2)

theorem signature_over_sent_parameters_witness:
  "(''POST'' = ''GET'' \<or> ''POST'' = ''POST'')
   \<and> (\<exists>rq. sent (snd (send_request test_lib ok_server test_client ''POST'' ''/api/v3/order''
                        (Some [(''symbol'', PStr ''BTCUSDT'')]) True test_world)) = sent test_world @ [rq]
          \<and> req_data rq =
               [(''symbol'', PStr ''BTCUSDT''), (''timestamp'', PInt 1700000000000),
                (''signature'', PStr ''hmac(secret,symbol=BTCUSDT&timestamp=1700000000000)'')])"
proof -
  have k: "''timestamp'' \<notin> set (keys [(''symbol'', PStr ''BTCUSDT'') :: string \<times> decimal pval])"
          "''signature'' \<notin> set (keys [(''symbol'', PStr ''BTCUSDT'') :: string \<times> decimal pval])"
    by (simp_all add: keys_def)
  have u: "urlencode test_lib [(''symbol'', PStr ''BTCUSDT''), (''timestamp'', PInt 1700000000000)] =
             ''symbol=BTCUSDT&timestamp=1700000000000''"
    by (simp add: urlencode_def quote_plus_def quote_plus_char_def unreserved_def str_pval_def
          str_int_def str_nat.simps digit_char_def)
  have h: "hmac_sha256_hex test_lib (secret_key test_client) ''symbol=BTCUSDT&timestamp=1700000000000'' =
             ''hmac(secret,symbol=BTCUSDT&timestamp=1700000000000)''"
    by (simp add: test_lib_def test_client_def BinanceFuturesClient_def)
  have n: "now_ms test_world = 1700000000000"
    by (simp add: test_world_def)
  from signature_over_sent_parameters
         [of "''POST''" test_lib ok_server test_client "''/api/v3/order''"
             "Some [(''symbol'', PStr ''BTCUSDT'')]" test_world] k u h n
  show ?thesis by (simp add: Let_def)
qed

section \<open>HTTP error statuses\<close>

text \<open>
  Claim C2, as amended. When the server answers the request of a GET, or of a POST
  without redirects, with a status from 400 to 599, \<open>_send_request\<close> fails with an
  \<open>Exception\<close> whose message is \<open>Network error: \<close> followed by the text of the
  HTTP error, which starts with the status code and holds the reason phrase and the
  URL. A failure of the transport fails with an \<open>Exception\<close> of the same class and
  the same prefix. In both cases the request has been sent.
\<close>

theorem http_error_status_is_network_error:
  "(srv (sent w) (request_sent lib cl method endpoint params signed w) = Inr r
      \<and> 400 \<le> status_code r \<and> status_code r < 600
      \<and> (method = ''GET'' \<or> method = ''POST'' \<and> history r = []) \<longrightarrow>
      fst (send_request lib srv cl method endpoint params signed w) =
        Inl (Exception
          (''Network error: '' @ str_nat (status_code r)
           @ (if status_code r < 500 then '' Client Error: '' else '' Server Error: '')
           @ reason r @ '' for url: '' @ url r)))
   \<and> (srv (sent w) (request_sent lib cl method endpoint params signed w) =
        Inl (RequestException m)
      \<and> (method = ''GET'' \<or> method = ''POST'') \<longrightarrow>
      fst (send_request lib srv cl method endpoint params signed w) =
        Inl (Exception (''Network error: '' @ m)))
   \<and> (method = ''GET'' \<or> method = ''POST'' \<longrightarrow>
      sent (snd (send_request lib srv cl method endpoint params signed w)) =
        sent w @ [request_sent lib cl method endpoint params signed w])"
  by (auto simp: send_request_GET_answer send_request_POST_answer send_request_failure
        after_response_error sent_send_request)

theorem http_error_status_is_network_error_witness:
  "routing_server (sent test_world)
       (request_sent test_lib test_client ''GET'' ''/api/v3/account'' None True test_world) =
     Inr not_found_response
   \<and> 400 \<le> status_code not_found_response \<and> status_code not_found_response < 600
   \<and> fst (send_request test_lib routing_server test_client ''GET'' ''/api/v3/account''
             None True test_world) =
       Inl (Exception
         ''Network error: 404 Client Error: Not Found for url: https://testnet.binance.vision/api/v3/account'')
   \<and> refusing_server (sent test_world)
       (request_sent test_lib test_client ''GET'' ''/api/v3/account'' None True test_world) =
     Inl (RequestException ''Connection refused'')
   \<and> fst (send_request test_lib refusing_server test_client ''GET'' ''/api/v3/account''
             None True test_world) =
       Inl (Exception ''Network error: Connection refused'')"
proof -
  have s: "status_code not_found_response = 404" "reason not_found_response = ''Not Found''"
    "url not_found_response = ''https://testnet.binance.vision/api/v3/account''"
    by (simp_all add: not_found_response_def)
  have n: "str_nat 404 = ''404''"
    by (simp add: str_nat.simps digit_char_def)
  have a: "routing_server (sent test_world)
       (request_sent test_lib test_client ''GET'' ''/api/v3/account'' None True test_world) =
     Inr not_found_response"
    by (simp add: routing_server_def request_sent_def test_client_def BinanceFuturesClient_def
          BASE_URL_def)
  have b: "refusing_server (sent test_world)
       (request_sent test_lib test_client ''GET'' ''/api/v3/account'' None True test_world) =
     Inl (RequestException ''Connection refused'')"
    by (simp add: refusing_server_def)
  from http_error_status_is_network_error
         [of routing_server test_world test_lib test_client "''GET''" "''/api/v3/account''"
             None True not_found_response "''Connection refused''"]
       http_error_status_is_network_error
         [of refusing_server test_world test_lib test_client "''GET''" "''/api/v3/account''"
             None True not_found_response "''Connection refused''"]
       a b s n
  show ?thesis by simp
qed

text \<open>
  Claim C2 as the specification states it fails: the error for a 404 is of the same
  class, and starts with the same words, as the error for a refused connection, and
  it does not hold the body of the response; and a response with the status 300,
  which is not 2xx either, is no error at all.
\<close>

theorem api_error_kind_counterexample:
  "status_code not_found_response = 404
   \<and> json not_found_response =
       Inr (JDict [(''code'', JInt (- 1121)), (''msg'', JStr ''Invalid symbol.'')])
   \<and> fst (send_request test_lib not_found_server test_client ''GET'' ''/api/v3/account''
             None True test_world) =
       Inl (Exception
         ''Network error: 404 Client Error: Not Found for url: https://testnet.binance.vision/api/v3/account'')
   \<and> \<not> sublist ''Invalid symbol.''
         ''Network error: 404 Client Error: Not Found for url: https://testnet.binance.vision/api/v3/account''
   \<and> fst (send_request test_lib refusing_server test_client ''GET'' ''/api/v3/account''
             None True test_world) =
       Inl (Exception ''Network error: Connection refused'')
   \<and> status_code multiple_choices_response = 300
   \<and> fst (send_request test_lib multiple_choices_server test_client ''GET'' ''/api/v3/account''
             None True test_world) =
       Inr (JDict [(''choices'', JList [])])"
proof -
  have "after_response not_found_response =
          Inl (RequestException
            ''404 Client Error: Not Found for url: https://testnet.binance.vision/api/v3/account'')"
    by (simp add: after_response_def raise_for_status_def not_found_response_def
          str_nat.simps digit_char_def)
  moreover have "after_response multiple_choices_response = Inr (JDict [(''choices'', JList [])])"
    by (simp add: after_response_def raise_for_status_def multiple_choices_response_def)
  moreover have "status_code not_found_response = 404" "status_code multiple_choices_response = 300"
    "json not_found_response =
       Inr (JDict [(''code'', JInt (- 1121)), (''msg'', JStr ''Invalid symbol.'')])"
    by (simp_all add: not_found_response_def multiple_choices_response_def)
  moreover have "\<not> sublist ''Invalid symbol.''
         ''Network error: 404 Client Error: Not Found for url: https://testnet.binance.vision/api/v3/account''"
    by (simp add: sublist_Cons_right)
  ultimately show ?thesis
    by (simp add: send_request_GET_answer [of not_found_server _ _ _ _ _ _ not_found_response]
          send_request_GET_answer [of multiple_choices_server _ _ _ _ _ _ multiple_choices_response]
          send_request_failure [of refusing_server _ _ _ _ _ _ _ "RequestException ''Connection refused''"]
          not_found_server_def multiple_choices_server_def refusing_server_def)
qed

section \<open>The redirect check of POST\<close>

text \<open>
  Claim C10. When the server answers the request of a POST with a response that
  arrived through redirects (its history is not empty), \<open>_send_request\<close> raises an
  exception whose message ends with the final URL, whatever the status code of the
  response, 2xx included. Without redirects the POST goes on to the status check and
  the body. A GET goes on to the status check and the body whatever its history.
\<close>

theorem post_redirect_raises:
  "(srv (sent w) (request_sent lib cl ''POST'' endpoint params signed w) = Inr r
      \<and> history r \<noteq> [] \<longrightarrow>
      fst (send_request lib srv cl ''POST'' endpoint params signed w) =
        Inl (Exception (''Request redirected! Wrong URL or endpoint. Final URL: '' @ url r)))
   \<and> (srv (sent w) (request_sent lib cl ''POST'' endpoint params signed w) = Inr r
      \<and> history r = [] \<longrightarrow>
      fst (send_request lib srv cl ''POST'' endpoint params signed w) =
        send_handlers (after_response r))
   \<and> (srv (sent w) (request_sent lib cl ''GET'' endpoint params signed w) = Inr r \<longrightarrow>
      fst (send_request lib srv cl ''GET'' endpoint params signed w) =
        send_handlers (after_response r))
   \<and> sent (snd (send_request lib srv cl ''POST'' endpoint params signed w)) =
       sent w @ [request_sent lib cl ''POST'' endpoint params signed w]
   \<and> sent (snd (send_request lib srv cl ''GET'' endpoint params signed w)) =
       sent w @ [request_sent lib cl ''GET'' endpoint params signed w]"
  by (simp add: send_request_GET_answer send_request_POST_answer sent_send_request)

theorem post_redirect_raises_witness:
  "redirecting_server (sent test_world)
       (request_sent test_lib test_client ''POST'' ''/api/v3/order'' None True test_world) =
     Inr redirected_response
   \<and> redirecting_server (sent test_world)
       (request_sent test_lib test_client ''GET'' ''/api/v3/order'' None True test_world) =
     Inr redirected_response
   \<and> history redirected_response \<noteq> []
   \<and> status_code redirected_response = 200
   \<and> fst (send_request test_lib redirecting_server test_client ''POST'' ''/api/v3/order''
             None True test_world) =
       Inl (Exception
         ''Request redirected! Wrong URL or endpoint. Final URL: https://testnet.binance.vision/api/v3/order'')
   \<and> fst (send_request test_lib redirecting_server test_client ''GET'' ''/api/v3/order''
             None True test_world) =
       Inr (JDict [(''orderId'', JInt 123)])"
proof -
  have srv: "redirecting_server (sent test_world) rq = Inr redirected_response" for rq
    by (simp add: redirecting_server_def)
  have h: "history redirected_response \<noteq> []"
    by (simp add: redirected_response_def)
  have s: "status_code redirected_response = 200"
    by (simp add: redirected_response_def ok_response_def)
  have a: "send_handlers (after_response redirected_response) = Inr (JDict [(''orderId'', JInt 123)])"
    by (simp add: after_response_def raise_for_status_def redirected_response_def ok_response_def)
  have u: "url redirected_response = ''https://testnet.binance.vision/api/v3/order''"
    by (simp add: redirected_response_def ok_response_def)
  from post_redirect_raises [of redirecting_server test_world test_lib test_client
         "''/api/v3/order''" None True redirected_response] h s a u srv
  show ?thesis by simp
qed

section \<open>Validation of the inputs of the CLI\<close>

lemma upper_hold:
  "str_upper test_lib ''hold'' = ''HOLD''" "str_upper test_lib ''limit'' = ''LIMIT''"
  "str_upper test_lib ''buy'' = ''BUY''" "str_upper test_lib ''market'' = ''MARKET''"
  by (simp_all add: test_lib_def ascii_upper_def ascii_upper_char_def)

lemma py_len_examples: "py_len ''BTC'' = 3" "py_len ''btcusdt'' = 7"
  by (simp_all add: py_len_def is_continuation_def)

text \<open>
  Claim C6. \<open>validate_inputs\<close> looks at every constraint: the symbol has at least
  6 characters; the side is BUY or SELL and the order type MARKET or LIMIT (after
  \<open>str.upper\<close>); the quantity is a valid number above 0; the price is there and is a
  valid number above 0 when the order type is LIMIT. When any constraint is violated
  it raises one \<open>ValueError\<close> whose message is the messages of all the violated
  constraints, in that order, joined by newlines; when none is, it returns the
  normalised inputs.
\<close>

theorem validate_inputs_reports_all_violations:
  "(cli_violations lib symbol side order_type quantity price \<noteq> [] \<longrightarrow>
      validate_inputs lib symbol side order_type quantity price =
        Inl (ValueError (join [CHR 0x0A] (cli_violations lib symbol side order_type quantity price))))
   \<and> (cli_violations lib symbol side order_type quantity price = [] \<longrightarrow>
      (\<exists>qty price_val. validate_inputs lib symbol side order_type quantity price =
         Inr (str_upper lib symbol, str_upper lib side, str_upper lib order_type, qty, price_val)))"
proof -
  define e1 where "e1 =
    (if symbol = [] \<or> py_len symbol < 6
     then [] @ [''Symbol must be at least 6 characters (e.g., BTCUSDT)''] else [])"
  define e2 where "e2 =
    (if str_upper lib side \<notin> set [''BUY'', ''SELL'']
     then e1 @ [''Side must be either 'BUY' or 'SELL'' @ [CHR 0x27]] else e1)"
  define e3 where "e3 =
    (if str_upper lib order_type \<notin> set [''MARKET'', ''LIMIT'']
     then e2 @ [''Order type must be either 'MARKET' or 'LIMIT'' @ [CHR 0x27]] else e2)"
  define e4 where "e4 =
    (case to_Decimal lib quantity of
       None \<Rightarrow> e3 @ [''Quantity must be a valid number'']
     | Some q \<Rightarrow>
         (case decimal_le_zero q of
            None \<Rightarrow> e3 @ [''Quantity must be a valid number'']
          | Some True \<Rightarrow> e3 @ [''Quantity must be greater than 0'']
          | Some False \<Rightarrow> e3))"
  define e5 where "e5 =
    (if str_upper lib order_type = ''LIMIT'' then
       (case price of
          None \<Rightarrow> e4 @ [''Price is required for LIMIT orders'']
        | Some p \<Rightarrow>
            if \<not> cli_value_bool lib p
            then e4 @ [''Price is required for LIMIT orders'']
            else
              (case to_Decimal lib p of
                 None \<Rightarrow> e4 @ [''Price must be a valid number'']
               | Some d \<Rightarrow>
                   (case decimal_le_zero d of
                      None \<Rightarrow> e4 @ [''Price must be a valid number'']
                    | Some True \<Rightarrow> e4 @ [''Price must be greater than 0'']
                    | Some False \<Rightarrow> e4)))
     else e4)"
  define price_val where "price_val =
    (if str_upper lib order_type = ''LIMIT'' then
       (case price of
          None \<Rightarrow> None
        | Some p \<Rightarrow> if cli_value_bool lib p then to_Decimal lib p else None)
     else None)"
  have run: "validate_inputs lib symbol side order_type quantity price =
    (if e5 \<noteq> [] then Inl (ValueError (join [CHR 0x0A] e5))
     else
       (case to_Decimal lib quantity of
          None \<Rightarrow> Inl (TypeError ''qty is not bound'')
        | Some q \<Rightarrow>
            Inr (str_upper lib symbol, str_upper lib side, str_upper lib order_type, float_of_Decimal lib q,
                 (case price_val of
                    None \<Rightarrow> None
                  | Some d \<Rightarrow> if decimal_bool d then Some (float_of_Decimal lib d) else None))))"
    by (simp only: validate_inputs_def Let_def e5_def e4_def e3_def e2_def e1_def price_val_def)
  define v1 where "v1 =
    (if 6 \<le> py_len symbol then []
     else [''Symbol must be at least 6 characters (e.g., BTCUSDT)''])"
  define v2 where "v2 =
    (if str_upper lib side \<in> set [''BUY'', ''SELL''] then []
     else [''Side must be either 'BUY' or 'SELL'' @ [CHR 0x27]])"
  define v3 where "v3 =
    (if str_upper lib order_type \<in> set [''MARKET'', ''LIMIT''] then []
     else [''Order type must be either 'MARKET' or 'LIMIT'' @ [CHR 0x27]])"
  define v5 where "v5 =
    (if str_upper lib order_type = ''LIMIT'' then
       (case price of
          None \<Rightarrow> [''Price is required for LIMIT orders'']
        | Some p \<Rightarrow>
            if cli_value_bool lib p then number_violations lib ''Price'' p
            else [''Price is required for LIMIT orders''])
     else [])"
  have viol: "cli_violations lib symbol side order_type quantity price =
      v1 @ v2 @ v3 @ number_violations lib ''Quantity'' quantity @ v5"
    by (simp only: cli_violations_def v1_def v2_def v3_def v5_def)
  have s1: "e1 = v1"
    by (auto simp: e1_def v1_def py_len_def)
  have s2: "e2 = e1 @ v2"
    by (simp add: e2_def v2_def del: set_simps)
  have s3: "e3 = e2 @ v3"
    by (simp add: e3_def v3_def del: set_simps)
  have s4: "e4 = e3 @ number_violations lib ''Quantity'' quantity"
    by (simp add: e4_def number_violations_def split: option.splits bool.splits)
  have s5: "e5 = e4 @ v5"
    by (simp add: e5_def v5_def number_violations_def split: option.splits bool.splits)
  have all: "e5 = cli_violations lib symbol side order_type quantity price"
    by (simp add: viol s1 s2 s3 s4 s5)
  have bound: "to_Decimal lib quantity \<noteq> None"
    if "cli_violations lib symbol side order_type quantity price = []"
  proof -
    from that have "number_violations lib ''Quantity'' quantity = []"
      by (simp add: viol)
    then show ?thesis
      by (auto simp: number_violations_def split: option.splits)
  qed
  show ?thesis
  proof (intro conjI impI)
    assume "cli_violations lib symbol side order_type quantity price \<noteq> []"
    then show "validate_inputs lib symbol side order_type quantity price =
        Inl (ValueError (join [CHR 0x0A] (cli_violations lib symbol side order_type quantity price)))"
      by (simp add: run all)
  next
    assume none: "cli_violations lib symbol side order_type quantity price = []"
    then obtain q where "to_Decimal lib quantity = Some q"
      using bound by blast
    with none show "\<exists>qty price_val. validate_inputs lib symbol side order_type quantity price =
         Inr (str_upper lib symbol, str_upper lib side, str_upper lib order_type, qty, price_val)"
      by (simp add: run all)
  qed
qed

theorem validate_inputs_reports_all_violations_witness:
  "cli_violations test_lib ''BTC'' ''hold'' ''limit'' (Text ''abc'') None \<noteq> []
   \<and> validate_inputs test_lib ''BTC'' ''hold'' ''limit'' (Text ''abc'') None =
       Inl (ValueError (join [CHR 0x0A]
         [''Symbol must be at least 6 characters (e.g., BTCUSDT)'',
          ''Side must be either 'BUY' or 'SELL'' @ [CHR 0x27],
          ''Quantity must be a valid number'',
          ''Price is required for LIMIT orders'']))
   \<and> cli_violations test_lib ''btcusdt'' ''buy'' ''market'' (Text ''0.5'') None = []
   \<and> (\<exists>qty price_val. validate_inputs test_lib ''btcusdt'' ''buy'' ''market'' (Text ''0.5'') None =
         Inr (''BTCUSDT'', ''BUY'', ''MARKET'', qty, price_val))"
proof -
  have d: "to_Decimal test_lib (Text ''abc'') = None"
    "to_Decimal test_lib (Text ''0.5'') = Some (Num (1 / 2))"
    by (simp_all add: to_Decimal_def test_lib_def plain_decimal_def digit_val_def)
  have v1: "cli_violations test_lib ''BTC'' ''hold'' ''limit'' (Text ''abc'') None =
         [''Symbol must be at least 6 characters (e.g., BTCUSDT)'',
          ''Side must be either 'BUY' or 'SELL'' @ [CHR 0x27],
          ''Quantity must be a valid number'',
          ''Price is required for LIMIT orders'']"
    by (simp add: cli_violations_def number_violations_def upper_hold py_len_examples d)
  have v2: "cli_violations test_lib ''btcusdt'' ''buy'' ''market'' (Text ''0.5'') None = []"
    by (simp add: cli_violations_def number_violations_def upper_hold py_len_examples d)
  have u: "str_upper test_lib ''btcusdt'' = ''BTCUSDT''"
    by (simp add: test_lib_def ascii_upper_def ascii_upper_char_def)
  from validate_inputs_reports_all_violations
         [of test_lib "''BTC''" "''hold''" "''limit''" "Text ''abc''" None]
       validate_inputs_reports_all_violations
         [of test_lib "''btcusdt''" "''buy''" "''market''" "Text ''0.5''" None]
       v1 v2 u upper_hold
  show ?thesis by simp
qed

section \<open>Configuration at startup\<close>

text \<open>
  Claim C8. When one of the two credential variables is unset, or holds its
  placeholder, \<open>validate_config\<close> raises its configuration error,
  \<open>OrderCLI.__init__\<close> exits with status 1, and \<open>main\<close> ends with status 1 in
  the world it started in: no HTTP call has been made, whatever the arguments, the
  server and the standard input.
\<close>

theorem config_placeholder_fails_before_network:
  assumes "env ''BINANCE_API_KEY'' = None \<or> env ''BINANCE_SECRET_KEY'' = None
         \<or> env ''BINANCE_API_KEY'' = Some ''your_testnet_api_key''
         \<or> env ''BINANCE_SECRET_KEY'' = Some ''your_testnet_secret_key''"
  shows "validate_config (load_Config env) =
           Inl (ValueError ''Please set your API credentials in .env file or config.py'')
       \<and> OrderCLI (load_Config env) = Inl 1
       \<and> main lib srv env args w = (1, w)"
proof -
  from assms have v: "validate_config (load_Config env) =
           Inl (ValueError ''Please set your API credentials in .env file or config.py'')"
    by (auto simp: validate_config_def load_Config_def getenv_def)
  then have o: "OrderCLI (load_Config env) = Inl 1"
    by (simp add: OrderCLI_def)
  then have "main lib srv env args w = (1, w)"
    by (simp add: main_def)
  with v o show ?thesis by simp
qed

theorem config_placeholder_fails_before_network_witness:
  "(Map.empty :: environ) ''BINANCE_API_KEY'' = None
   \<and> main test_lib ok_server Map.empty (Place ''BTCUSDT'' ''BUY'' ''MARKET'' (Num 1) None) test_world =
       (1, test_world)
   \<and> sent test_world = []"
  using config_placeholder_fails_before_network
          [of Map.empty test_lib ok_server "Place ''BTCUSDT'' ''BUY'' ''MARKET'' (Num 1) None" test_world]
  by (simp add: test_world_def)

section \<open>Formatting a response\<close>

lemma str_int_123: "str_int 123 = ''123''"
  by (simp add: str_int_def str_nat.simps digit_char_def)

lemma str_int_1234567890: "str_int 1234567890 = ''1234567890''"
  by (simp add: str_int_def str_nat.simps digit_char_def)

lemma sublist_join: "l \<in> set ls \<Longrightarrow> sublist l (join sep ls)"
proof (induction sep ls rule: join.induct)
  case (1 sep)
  then show ?case by simp
next
  case (2 sep x)
  then show ?case by simp
next
  case (3 sep x y ys)
  show ?case
  proof (cases "l = x")
    case True
    then show ?thesis by simp
  next
    case False
    with 3 have "sublist l (join sep (y # ys))" by simp
    then have "sublist l ((x @ sep) @ join sep (y # ys))"
      by (metis sublist_append_leftI sublist_order.order_trans)
    then show ?thesis by simp
  qed
qed

lemma sublist_in_line: "l \<in> set ls \<Longrightarrow> sublist v l \<Longrightarrow> sublist v (join sep ls)"
  using sublist_join sublist_order.order_trans by blast

lemma format_example:
  "format_order_response lib order_response_example = Inr (join [CHR 0x0A]
         [replicate 50 CHR ''='',
          check_mark @ '' ORDER PLACED SUCCESSFULLY'',
          replicate 50 CHR ''='',
          ''Order ID: 123'',
          ''Symbol: BTCUSDT'',
          ''Side: BUY'',
          ''Type: MARKET'',
          ''Status: FILLED'',
          ''Quantity: 0.001'',
          ''Executed Quantity: 0.001'',
          ''Price: 0'',
          ''Time: 1234567890'',
          replicate 50 CHR ''=''])"
proof -
  have g: "get_str lib order_response_example ''orderId'' ''N/A'' = ''123''"
    "get_str lib order_response_example ''symbol'' ''N/A'' = ''BTCUSDT''"
    "get_str lib order_response_example ''side'' ''N/A'' = ''BUY''"
    "get_str lib order_response_example ''type'' ''N/A'' = ''MARKET''"
    "get_str lib order_response_example ''status'' ''N/A'' = ''FILLED''"
    "get_str lib order_response_example ''origQty'' ''N/A'' = ''0.001''"
    "get_str lib order_response_example ''executedQty'' ''0'' = ''0.001''"
    "get_str lib order_response_example ''price'' ''N/A'' = ''0''"
    "get_str lib order_response_example ''updateTime'' ''N/A'' = ''1234567890''"
    by (simp_all add: order_response_example_def get_str_def str_json_def
          str_int_123 str_int_1234567890)
  have c: "map_of (order_response_example :: (string \<times> 'a jvalue) list) ''code'' = None"
    "map_of (order_response_example :: (string \<times> 'a jvalue) list) ''avgPrice'' = None"
    by (simp_all add: order_response_example_def)
  show ?thesis
    unfolding format_order_response_def Let_def g c by simp
qed

text \<open>
  Claim C9. Formatting the response \<open>{orderId: 123, symbol: "BTCUSDT", side: "BUY",
  type: "MARKET", status: "FILLED", origQty: "0.001", executedQty: "0.001",
  price: "0", updateTime: 1234567890}\<close> gives a summary block, and the text of the
  block contains the value of each field.
\<close>

theorem format_example_contains_values:
  "\<exists>text. format_order_response lib order_response_example = Inr text
     \<and> sublist ''123'' text \<and> sublist ''BTCUSDT'' text \<and> sublist ''BUY'' text
     \<and> sublist ''MARKET'' text \<and> sublist ''FILLED'' text \<and> sublist ''0.001'' text
     \<and> sublist ''0'' text \<and> sublist ''1234567890'' text
     \<and> text = join [CHR 0x0A]
         [replicate 50 CHR ''='',
          check_mark @ '' ORDER PLACED SUCCESSFULLY'',
          replicate 50 CHR ''='',
          ''Order ID: 123'',
          ''Symbol: BTCUSDT'',
          ''Side: BUY'',
          ''Type: MARKET'',
          ''Status: FILLED'',
          ''Quantity: 0.001'',
          ''Executed Quantity: 0.001'',
          ''Price: 0'',
          ''Time: 1234567890'',
          replicate 50 CHR ''='']"
proof -
  let ?lines = "[replicate 50 CHR ''='',
          check_mark @ '' ORDER PLACED SUCCESSFULLY'',
          replicate 50 CHR ''='',
          ''Order ID: 123'',
          ''Symbol: BTCUSDT'',
          ''Side: BUY'',
          ''Type: MARKET'',
          ''Status: FILLED'',
          ''Quantity: 0.001'',
          ''Executed Quantity: 0.001'',
          ''Price: 0'',
          ''Time: 1234567890'',
          replicate 50 CHR ''='']"
  have s1: "sublist ''123'' (join [CHR 0x0A] ?lines)"
    by (rule sublist_in_line [of "''Order ID: 123''"],
        simp, rule sublist_append_leftI [of _ "''Order ID: ''", simplified])
  have s2: "sublist ''BTCUSDT'' (join [CHR 0x0A] ?lines)"
    by (rule sublist_in_line [of "''Symbol: BTCUSDT''"],
        simp, rule sublist_append_leftI [of _ "''Symbol: ''", simplified])
  have s3: "sublist ''BUY'' (join [CHR 0x0A] ?lines)"
    by (rule sublist_in_line [of "''Side: BUY''"],
        simp, rule sublist_append_leftI [of _ "''Side: ''", simplified])
  have s4: "sublist ''MARKET'' (join [CHR 0x0A] ?lines)"
    by (rule sublist_in_line [of "''Type: MARKET''"],
        simp, rule sublist_append_leftI [of _ "''Type: ''", simplified])
  have s5: "sublist ''FILLED'' (join [CHR 0x0A] ?lines)"
    by (rule sublist_in_line [of "''Status: FILLED''"],
        simp, rule sublist_append_leftI [of _ "''Status: ''", simplified])
  have s6: "sublist ''0.001'' (join [CHR 0x0A] ?lines)"
    by (rule sublist_in_line [of "''Quantity: 0.001''"],
        simp, rule sublist_append_leftI [of _ "''Quantity: ''", simplified])
  have s7: "sublist ''0'' (join [CHR 0x0A] ?lines)"
    by (rule sublist_in_line [of "''Price: 0''"],
        simp, rule sublist_append_leftI [of _ "''Price: ''", simplified])
  have s8: "sublist ''1234567890'' (join [CHR 0x0A] ?lines)"
    by (rule sublist_in_line [of "''Time: 1234567890''"],
        simp, rule sublist_append_leftI [of _ "''Time: ''", simplified])
  from format_example [of lib] s1 s2 s3 s4 s5 s6 s7 s8 show ?thesis
    by blast
qed

theorem format_example_contains_values_witness:
  "\<exists>text. format_order_response test_lib order_response_example = Inr text
     \<and> sublist ''123'' text \<and> sublist ''BTCUSDT'' text \<and> sublist ''BUY'' text
     \<and> sublist ''MARKET'' text \<and> sublist ''FILLED'' text \<and> sublist ''0.001'' text
     \<and> sublist ''0'' text \<and> sublist ''1234567890'' text"
  using format_example_contains_values [of test_lib] by blast

end
